theory Spec2Isabelle
  imports Main "HOL-Library.Word" "HOL-Library.AList_Mapping"
begin

section \<open>The GlanceAPI reconciler (controllers/glanceapi_controller.go)\<close>

text \<open>
  A shallow embedding of \<^verbatim>\<open>GlanceAPIReconciler.Reconcile\<close>, \<^verbatim>\<open>setDbSyncHash\<close> and
  \<^verbatim>\<open>setDeploymentHash\<close>. The Kubernetes client is an explicit store: one map per
  resource kind, the list of calls made so far with their outcomes, and a script of
  injected errors consumed one entry per call, so that every call of the client can fail.
\<close>

subsection \<open>Errors and results\<close>

text \<open>
  \<open>NotFound\<close>, \<open>AlreadyExists\<close> and \<open>Invalid\<close> are the errors the store itself produces
  (\<open>Invalid\<close> for an Update of an object that has no name), \<open>StoreError\<close> is any other
  error of the client, \<open>AccessorError\<close> is the error of \<^verbatim>\<open>unstructured.NestedBool\<close> on a
  field that is not a bool, \<open>Errorf\<close> is \<^verbatim>\<open>fmt.Errorf(prefix + "%v", err)\<close>,
  \<open>JobFailedError\<close> is the error of a failed job.
\<close>

datatype error =
    NotFound
  | AlreadyExists
  | Invalid
  | StoreError string
  | AccessorError
  | HashError string
  | JobFailedError
  | Errorf string error

definition IsNotFound :: "error \<Rightarrow> bool" where
  "IsNotFound err = (err = NotFound)"

type_synonym Duration = int

definition Second :: Duration where
  "Second = 1000000000"

record Result =
  Requeue :: bool
  RequeueAfter :: Duration

text \<open>\<^verbatim>\<open>ctrl.Result{}\<close>\<close>

definition emptyResult :: Result where
  "emptyResult = \<lparr>Requeue = False, RequeueAfter = 0\<rparr>"

text \<open>\<^verbatim>\<open>ctrl.Result{RequeueAfter: d}\<close>\<close>

definition requeueAfter :: "Duration \<Rightarrow> Result" where
  "requeueAfter d = \<lparr>Requeue = False, RequeueAfter = d\<rparr>"

subsection \<open>Objects\<close>

type_synonym int32 = "32 word"

text \<open>\<^verbatim>\<open>types.NamespacedName\<close>, as the pair (Namespace, Name).\<close>

type_synonym NamespacedName = "string \<times> string"

text \<open>The embedded \<^verbatim>\<open>metav1.ObjectMeta\<close>; every object record extends it.\<close>

record ObjectMeta =
  Name :: string
  Namespace :: string

definition key :: "'a ObjectMeta_scheme \<Rightarrow> NamespacedName" where
  "key obj = (Namespace obj, Name obj)"

record GlanceAPISpec =
  Replicas :: int32

record GlanceAPIStatus =
  DbSyncHash :: string
  DeploymentHash :: string

record GlanceAPI = ObjectMeta +
  Spec :: GlanceAPISpec
  Status :: GlanceAPIStatus

text \<open>The reconciler reads only name and namespace of a PVC and of a Service.\<close>

record PersistentVolumeClaim = ObjectMeta +
  pvcSpec :: string

record Service = ObjectMeta +
  svcSpec :: string

text \<open>
  \<^verbatim>\<open>ConfigMap.Data\<close> is a \<^verbatim>\<open>map[string]string\<close>; \<open>None\<close> is the nil map, which
  \<^verbatim>\<open>reflect.DeepEqual\<close> tells apart from an empty one.
\<close>

record ConfigMap = ObjectMeta +
  Data :: "(string, string) mapping option"

text \<open>
  The field is tagged \<^verbatim>\<open>json:"data,omitempty"\<close>: an empty map is left out of what is
  sent to the store, so the store holds, and hands back, the nil map in its place.
\<close>

definition omitempty :: "(string, string) mapping option \<Rightarrow> (string, string) mapping option" where
  "omitempty d =
     (case d of None \<Rightarrow> None | Some m \<Rightarrow> if Mapping.is_empty m then None else Some m)"

definition stored_ConfigMap :: "ConfigMap \<Rightarrow> ConfigMap" where
  "stored_ConfigMap obj = obj\<lparr>Data := omitempty (Data obj)\<rparr>"

text \<open>The zero value \<^verbatim>\<open>&corev1.ConfigMap{}\<close> that a failed Get leaves untouched.\<close>

definition zeroConfigMap :: ConfigMap where
  "zeroConfigMap = \<lparr>Name = [], Namespace = [], Data = None\<rparr>"

text \<open>
  The schema object is \<^verbatim>\<open>unstructured.Unstructured\<close>; of its content the reconciler reads
  the nested field status.completed only, which is missing, a bool, or of another type.
\<close>

datatype NestedField = FieldMissing | FieldBool bool | FieldOther

record Unstructured = ObjectMeta +
  statusCompleted :: NestedField

text \<open>\<^verbatim>\<open>unstructured.NestedBool\<close>: the value, whether it was found, and the error.\<close>

fun NestedBool :: "NestedField \<Rightarrow> bool \<times> bool \<times> error option" where
  "NestedBool FieldMissing = (False, False, None)"
| "NestedBool (FieldBool b) = (b, True, None)"
| "NestedBool FieldOther = (False, False, Some AccessorError)"

text \<open>
  The job's state, in the terms of the spec's job state machine
  (NotStarted is the absence of a live job, Deleted its absence after completion).
\<close>

datatype JobState = JobRunning | JobCompleted | JobFailed

record Job = ObjectMeta +
  jobSpec :: string
  jobStatus :: JobState

record DeploymentStatus =
  ReadyReplicas :: int32

record Deployment = ObjectMeta +
  deploymentSpec :: string
  deploymentStatus :: DeploymentStatus

subsection \<open>The object store behind \<^verbatim>\<open>r.Client\<close>\<close>

datatype kind =
  KGlanceAPI | KPersistentVolumeClaim | KService | KConfigMap | KSchema | KJob | KDeployment

datatype call =
    Get kind NamespacedName
  | Create kind NamespacedName
  | Update kind NamespacedName
  | Delete kind NamespacedName
  | StatusUpdate NamespacedName GlanceAPIStatus

record store =
  glanceapis :: "NamespacedName \<rightharpoonup> GlanceAPI"
  pvcs :: "NamespacedName \<rightharpoonup> PersistentVolumeClaim"
  services :: "NamespacedName \<rightharpoonup> Service"
  configmaps :: "NamespacedName \<rightharpoonup> ConfigMap"
  schemas :: "NamespacedName \<rightharpoonup> Unstructured"
  jobs :: "NamespacedName \<rightharpoonup> Job"
  deployments :: "NamespacedName \<rightharpoonup> Deployment"
  calls :: "(call \<times> error option) list"
  faults :: "error option list"

text \<open>
  What the store is taken to do, being outside the controller's source: a Get returns the
  stored object or NotFound; a Create stores the object it is given and refuses one that
  exists; an Update or Delete refuses one that does not exist, and an Update refuses an
  object without a name (the zero value that line 122 passes after a failed Get) as
  Invalid; a ConfigMap goes into the store and comes out of it with an empty Data map
  turned into the nil map; a call leaves the object passed to it as it was. Resource
  versions are not modelled: a conflict is one of the injected errors.
\<close>

text \<open>The error injected into the next call, if any; an exhausted script injects none.\<close>

definition injected :: "store \<Rightarrow> error option" where
  "injected s = (case faults s of [] \<Rightarrow> None | f # _ \<Rightarrow> f)"

text \<open>Every call is logged with its outcome and consumes one entry of the script.\<close>

definition record_call :: "call \<Rightarrow> error option \<Rightarrow> store \<Rightarrow> store" where
  "record_call c out s = s\<lparr>calls := calls s @ [(c, out)], faults := tl (faults s)\<rparr>"

text \<open>
  \<^verbatim>\<open>client.Get\<close>: the injected error, else NotFound for an absent object, else the object.
\<close>

definition client_get ::
  "kind \<Rightarrow> NamespacedName \<Rightarrow> 'a option \<Rightarrow> store \<Rightarrow> (error + 'a) \<times> store" where
  "client_get k n found s =
     (case injected s of
        Some err \<Rightarrow> (Inl err, record_call (Get k n) (Some err) s)
      | None \<Rightarrow>
          (case found of
             None \<Rightarrow> (Inl NotFound, record_call (Get k n) (Some NotFound) s)
           | Some obj \<Rightarrow> (Inr obj, record_call (Get k n) None s)))"

text \<open>
  A writing call: the injected error, else the error the store's state gives, else the
  effect on the store.
\<close>

definition client_write ::
  "call \<Rightarrow> error option \<Rightarrow> (store \<Rightarrow> store) \<Rightarrow> store \<Rightarrow> error option \<times> store" where
  "client_write c refused effect s =
     (case injected s of
        Some err \<Rightarrow> (Some err, record_call c (Some err) s)
      | None \<Rightarrow>
          (case refused of
             Some err \<Rightarrow> (Some err, record_call c (Some err) s)
           | None \<Rightarrow> (None, record_call c None (effect s))))"

definition exists_error :: "'a option \<Rightarrow> error option" where
  "exists_error found = (case found of None \<Rightarrow> None | Some _ \<Rightarrow> Some AlreadyExists)"

definition missing_error :: "'a option \<Rightarrow> error option" where
  "missing_error found = (case found of None \<Rightarrow> Some NotFound | Some _ \<Rightarrow> None)"

definition update_error :: "'a ObjectMeta_scheme \<Rightarrow> 'b option \<Rightarrow> error option" where
  "update_error obj found = (if Name obj = [] then Some Invalid else missing_error found)"

definition Get_GlanceAPI :: "NamespacedName \<Rightarrow> store \<Rightarrow> (error + GlanceAPI) \<times> store" where
  "Get_GlanceAPI n s = client_get KGlanceAPI n (glanceapis s n) s"

definition Get_Pvc :: "NamespacedName \<Rightarrow> store \<Rightarrow> (error + PersistentVolumeClaim) \<times> store" where
  "Get_Pvc n s = client_get KPersistentVolumeClaim n (pvcs s n) s"

definition Get_Service :: "NamespacedName \<Rightarrow> store \<Rightarrow> (error + Service) \<times> store" where
  "Get_Service n s = client_get KService n (services s n) s"

definition Get_ConfigMap :: "NamespacedName \<Rightarrow> store \<Rightarrow> (error + ConfigMap) \<times> store" where
  "Get_ConfigMap n s = client_get KConfigMap n (map_option stored_ConfigMap (configmaps s n)) s"

definition Get_Schema :: "NamespacedName \<Rightarrow> store \<Rightarrow> (error + Unstructured) \<times> store" where
  "Get_Schema n s = client_get KSchema n (schemas s n) s"

definition Get_Job :: "NamespacedName \<Rightarrow> store \<Rightarrow> (error + Job) \<times> store" where
  "Get_Job n s = client_get KJob n (jobs s n) s"

definition Get_Deployment :: "NamespacedName \<Rightarrow> store \<Rightarrow> (error + Deployment) \<times> store" where
  "Get_Deployment n s = client_get KDeployment n (deployments s n) s"

definition Create_Pvc :: "PersistentVolumeClaim \<Rightarrow> store \<Rightarrow> error option \<times> store" where
  "Create_Pvc obj s =
     client_write (Create KPersistentVolumeClaim (key obj)) (exists_error (pvcs s (key obj)))
       (\<lambda>t. t\<lparr>pvcs := (pvcs t)(key obj \<mapsto> obj)\<rparr>) s"

definition Create_Service :: "Service \<Rightarrow> store \<Rightarrow> error option \<times> store" where
  "Create_Service obj s =
     client_write (Create KService (key obj)) (exists_error (services s (key obj)))
       (\<lambda>t. t\<lparr>services := (services t)(key obj \<mapsto> obj)\<rparr>) s"

definition Create_ConfigMap :: "ConfigMap \<Rightarrow> store \<Rightarrow> error option \<times> store" where
  "Create_ConfigMap obj s =
     client_write (Create KConfigMap (key obj)) (exists_error (configmaps s (key obj)))
       (\<lambda>t. t\<lparr>configmaps := (configmaps t)(key obj \<mapsto> stored_ConfigMap obj)\<rparr>) s"

definition Create_Schema :: "Unstructured \<Rightarrow> store \<Rightarrow> error option \<times> store" where
  "Create_Schema obj s =
     client_write (Create KSchema (key obj)) (exists_error (schemas s (key obj)))
       (\<lambda>t. t\<lparr>schemas := (schemas t)(key obj \<mapsto> obj)\<rparr>) s"

definition Create_Job :: "Job \<Rightarrow> store \<Rightarrow> error option \<times> store" where
  "Create_Job obj s =
     client_write (Create KJob (key obj)) (exists_error (jobs s (key obj)))
       (\<lambda>t. t\<lparr>jobs := (jobs t)(key obj \<mapsto> obj)\<rparr>) s"

definition Create_Deployment :: "Deployment \<Rightarrow> store \<Rightarrow> error option \<times> store" where
  "Create_Deployment obj s =
     client_write (Create KDeployment (key obj)) (exists_error (deployments s (key obj)))
       (\<lambda>t. t\<lparr>deployments := (deployments t)(key obj \<mapsto> obj)\<rparr>) s"

definition Update_ConfigMap :: "ConfigMap \<Rightarrow> store \<Rightarrow> error option \<times> store" where
  "Update_ConfigMap obj s =
     client_write (Update KConfigMap (key obj)) (update_error obj (configmaps s (key obj)))
       (\<lambda>t. t\<lparr>configmaps := (configmaps t)(key obj \<mapsto> stored_ConfigMap obj)\<rparr>) s"

definition Update_Deployment :: "Deployment \<Rightarrow> store \<Rightarrow> error option \<times> store" where
  "Update_Deployment obj s =
     client_write (Update KDeployment (key obj)) (update_error obj (deployments s (key obj)))
       (\<lambda>t. t\<lparr>deployments := (deployments t)(key obj \<mapsto> obj)\<rparr>) s"

definition Delete_Job :: "Job \<Rightarrow> store \<Rightarrow> error option \<times> store" where
  "Delete_Job obj s =
     client_write (Delete KJob (key obj)) (missing_error (jobs s (key obj)))
       (\<lambda>t. t\<lparr>jobs := (jobs t)(key obj := None)\<rparr>) s"

text \<open>
  \<^verbatim>\<open>r.Client.Status().Update\<close>: the status subresource of the stored object is replaced
  by the status of the object passed; its spec is not written.
\<close>

definition Status_Update :: "GlanceAPI \<Rightarrow> store \<Rightarrow> error option \<times> store" where
  "Status_Update api s =
     client_write (StatusUpdate (key api) (Status api)) (missing_error (glanceapis s (key api)))
       (\<lambda>t. t\<lparr>glanceapis :=
               (glanceapis t)(key api := map_option (\<lambda>live. live\<lparr>Status := Status api\<rparr>)
                                           (glanceapis t (key api)))\<rparr>) s"

subsection \<open>Templating and fingerprinting\<close>

text \<open>
  The templates of package \<^verbatim>\<open>glance\<close> (Pvc, Service, ConfigMap, SchemaObject, DbSyncJob,
  Deployment) and \<^verbatim>\<open>util.ObjectHash\<close> are not part of the controller's source file: they
  are parameters, pure functions of their arguments. \<^verbatim>\<open>util.ObjectHash\<close> takes any
  object; here it is one function per kind it is applied to.
\<close>

record templates =
  glance_Pvc :: "GlanceAPI \<Rightarrow> PersistentVolumeClaim"
  glance_Service :: "GlanceAPI \<Rightarrow> Service"
  glance_ConfigMap :: "GlanceAPI \<Rightarrow> ConfigMap"
  glance_SchemaObject :: "GlanceAPI \<Rightarrow> error + Unstructured"
  glance_DbSyncJob :: "GlanceAPI \<Rightarrow> Job"
  glance_Deployment :: "GlanceAPI \<Rightarrow> string \<Rightarrow> Deployment"
  ObjectHash_Job :: "Job \<Rightarrow> error + string"
  ObjectHash_ConfigMap :: "ConfigMap \<Rightarrow> error + string"
  ObjectHash_Deployment :: "Deployment \<Rightarrow> error + string"

subsection \<open>The job helpers of package glance\<close>

text \<open>
  Modelled from the spec: \<^verbatim>\<open>glance.EnsureJob(job, client, log)\<close> is not in the
  controller's source file. Section 4.4 of the spec, after the fingerprint comparison
  (which the controller makes itself, before the call): if no live job exists, create it
  and report requeue; if a live job exists and has not reached terminal success, report
  requeue; a job that failed is surfaced as an error; a job that completed reports no
  requeue. Store errors are returned (section 7).
\<close>

definition EnsureJob :: "Job \<Rightarrow> store \<Rightarrow> (bool \<times> error option) \<times> store" where
  "EnsureJob job s =
     (case Get_Job (key job) s of
        (Inl err, s1) \<Rightarrow>
          if IsNotFound err then
            (case Create_Job job s1 of
               (Some err', s2) \<Rightarrow> ((False, Some err'), s2)
             | (None, s2) \<Rightarrow> ((True, None), s2))
          else ((False, Some err), s1)
      | (Inr foundJob, s1) \<Rightarrow>
          (case jobStatus foundJob of
             JobRunning \<Rightarrow> ((True, None), s1)
           | JobFailed \<Rightarrow> ((False, Some JobFailedError), s1)
           | JobCompleted \<Rightarrow> ((False, None), s1)))"

text \<open>
  Modelled from the spec: \<^verbatim>\<open>glance.DeleteJob(job, client, log)\<close> is not in the
  controller's source file. The spec gives its contract,
  \<^verbatim>\<open>deleteJob(jobDescription) -> (requeue, error)\<close>, and its purpose, to reclaim the
  transient job object (section 4.4); store errors are returned (section 7). The spec
  does not say by which calls the job is reclaimed, nor what happens when it is already
  gone. Here the job is fetched and deleted when it is there, and a job that is gone is
  no error, as the terminal state of section 4.5 is reached with the job deleted and the
  controller calls \<^verbatim>\<open>DeleteJob\<close> in every pass that gets so far. The controller never
  reads the requeue flag.
\<close>

definition DeleteJob :: "Job \<Rightarrow> store \<Rightarrow> (bool \<times> error option) \<times> store" where
  "DeleteJob job s =
     (case Get_Job (key job) s of
        (Inl err, s1) \<Rightarrow>
          if IsNotFound err then ((False, None), s1) else ((False, Some err), s1)
      | (Inr foundJob, s1) \<Rightarrow>
          (case Delete_Job foundJob s1 of
             (Some err, s2) \<Rightarrow> ((False, Some err), s2)
           | (None, s2) \<Rightarrow> ((True, None), s2)))"

subsection \<open>setDbSyncHash and setDeploymentHash\<close>

text \<open>
  Both write through the pointer to the instance before the status call, so the instance
  the caller holds afterwards is returned with the error.
\<close>

definition setDbSyncHash ::
  "GlanceAPI \<Rightarrow> string \<Rightarrow> store \<Rightarrow> (error option \<times> GlanceAPI) \<times> store" where
  "setDbSyncHash api hashStr s =
     (if hashStr \<noteq> DbSyncHash (Status api) then
        (let api' = api\<lparr>Status := (Status api)\<lparr>DbSyncHash := hashStr\<rparr>\<rparr> in
         case Status_Update api' s of
           (Some err, s1) \<Rightarrow> ((Some err, api'), s1)
         | (None, s1) \<Rightarrow> ((None, api'), s1))
      else ((None, api), s))"

definition setDeploymentHash ::
  "GlanceAPI \<Rightarrow> string \<Rightarrow> store \<Rightarrow> (error option \<times> GlanceAPI) \<times> store" where
  "setDeploymentHash instance hashStr s =
     (if hashStr \<noteq> DeploymentHash (Status instance) then
        (let instance' = instance\<lparr>Status := (Status instance)\<lparr>DeploymentHash := hashStr\<rparr>\<rparr> in
         case Status_Update instance' s of
           (Some err, s1) \<Rightarrow> ((Some err, instance'), s1)
         | (None, s1) \<Rightarrow> ((None, instance'), s1))
      else ((None, instance), s))"

subsection \<open>Reconcile\<close>

text \<open>
  \<^verbatim>\<open>Reconcile\<close> is one function of seven blocks. Each block is a definition here; it
  either returns from \<^verbatim>\<open>Reconcile\<close> (\<open>Return\<close>, with the result and the error) or
  falls through to the next block (\<open>Continue\<close>, with what the later blocks read).
\<close>

datatype 'a flow = Return Result "error option" | Continue 'a

text \<open>Lines 72-88: the PVC.\<close>

definition reconcilePvc :: "templates \<Rightarrow> GlanceAPI \<Rightarrow> store \<Rightarrow> unit flow \<times> store" where
  "reconcilePvc env instance s =
     (let pvc = glance_Pvc env instance in
      case Get_Pvc (key pvc) s of
        (Inl err, s1) \<Rightarrow>
          if IsNotFound err then
            (case Create_Pvc pvc s1 of
               (Some err', s2) \<Rightarrow> (Return emptyResult (Some err'), s2)
             | (None, s2) \<Rightarrow> (Return (requeueAfter (Second * 5)) None, s2))
          else (Return emptyResult (Some err), s1)
      | (Inr foundPvc, s1) \<Rightarrow> (Continue (), s1))"

text \<open>Lines 90-106: the Service.\<close>

definition reconcileService :: "templates \<Rightarrow> GlanceAPI \<Rightarrow> store \<Rightarrow> unit flow \<times> store" where
  "reconcileService env instance s =
     (let service = glance_Service env instance in
      case Get_Service (key service) s of
        (Inl err, s1) \<Rightarrow>
          if IsNotFound err then
            (case Create_Service service s1 of
               (Some err', s2) \<Rightarrow> (Return emptyResult (Some err'), s2)
             | (None, s2) \<Rightarrow> (Return (requeueAfter (Second * 5)) None, s2))
          else (Return emptyResult (Some err), s1)
      | (Inr foundService, s1) \<Rightarrow> (Continue (), s1))"

text \<open>
  Lines 119-127, the second branch of the ConfigMap block: it is entered whenever the
  first branch is not, with \<open>foundConfigMap\<close> as the Get left it.
\<close>

definition updateConfigMap :: "ConfigMap \<Rightarrow> ConfigMap \<Rightarrow> store \<Rightarrow> ConfigMap flow \<times> store" where
  "updateConfigMap configMap foundConfigMap s =
     (if Data configMap \<noteq> Data foundConfigMap then
        (case Update_ConfigMap (foundConfigMap\<lparr>Data := Data configMap\<rparr>) s of
           (Some err, s1) \<Rightarrow> (Return emptyResult (Some err), s1)
         | (None, s1) \<Rightarrow> (Return (requeueAfter (Second * 5)) None, s1))
      else (Continue configMap, s))"

text \<open>Lines 108-127: the ConfigMap.\<close>

definition reconcileConfigMap ::
  "templates \<Rightarrow> GlanceAPI \<Rightarrow> store \<Rightarrow> ConfigMap flow \<times> store" where
  "reconcileConfigMap env instance s =
     (let configMap = glance_ConfigMap env instance in
      case Get_ConfigMap (key configMap) s of
        (Inl err, s1) \<Rightarrow>
          if IsNotFound err then
            (case Create_ConfigMap configMap s1 of
               (Some err', s2) \<Rightarrow> (Return emptyResult (Some err'), s2)
             | (None, s2) \<Rightarrow> (Continue configMap, s2))
          else updateConfigMap configMap zeroConfigMap s1
      | (Inr foundConfigMap, s1) \<Rightarrow> updateConfigMap configMap foundConfigMap s1)"

text \<open>Lines 129-151: the schema object and its completion flag.\<close>

definition reconcileSchema :: "templates \<Rightarrow> GlanceAPI \<Rightarrow> store \<Rightarrow> unit flow \<times> store" where
  "reconcileSchema env instance s =
     (case glance_SchemaObject env instance of
        Inl err \<Rightarrow> (Return emptyResult (Some err), s)
      | Inr schemaObj \<Rightarrow>
          (case Get_Schema (key schemaObj) s of
             (Inl err, s1) \<Rightarrow>
               if IsNotFound err then
                 (case Create_Schema schemaObj s1 of
                    (Some err', s2) \<Rightarrow> (Return emptyResult (Some err'), s2)
                  | (None, s2) \<Rightarrow> (Continue (), s2))
               else (Return emptyResult (Some err), s1)
           | (Inr foundSchema, s1) \<Rightarrow>
               (case NestedBool (statusCompleted foundSchema) of
                  (completed, _, err) \<Rightarrow>
                    if \<not> completed then (Return (requeueAfter (Second * 5)) err, s1)
                    else (Continue (), s1))))"

text \<open>Lines 160-170: run the DB sync job unless Status records its fingerprint.\<close>

definition runDbSync :: "GlanceAPI \<Rightarrow> Job \<Rightarrow> string \<Rightarrow> store \<Rightarrow> unit flow \<times> store" where
  "runDbSync instance job dbSyncHash s =
     (if DbSyncHash (Status instance) \<noteq> dbSyncHash then
        (case EnsureJob job s of
           ((requeue, Some err), s1) \<Rightarrow> (Return emptyResult (Some err), s1)
         | ((requeue, None), s1) \<Rightarrow>
             if requeue then (Return (requeueAfter (Second * 5)) None, s1)
             else (Continue (), s1))
      else (Continue (), s))"

text \<open>Lines 153-179: the DB sync job, its fingerprint in Status, its deletion.\<close>

definition reconcileDbSync :: "templates \<Rightarrow> GlanceAPI \<Rightarrow> store \<Rightarrow> GlanceAPI flow \<times> store" where
  "reconcileDbSync env instance s =
     (let job = glance_DbSyncJob env instance in
      case ObjectHash_Job env job of
        Inl err \<Rightarrow> (Return emptyResult (Some (Errorf ''error calculating DB sync hash: '' err)), s)
      | Inr dbSyncHash \<Rightarrow>
          (case runDbSync instance job dbSyncHash s of
             (Return res err, s1) \<Rightarrow> (Return res err, s1)
           | (Continue _, s1) \<Rightarrow>
               (case setDbSyncHash instance dbSyncHash s1 of
                  ((Some err, instance'), s2) \<Rightarrow> (Return emptyResult (Some err), s2)
                | ((None, instance'), s2) \<Rightarrow>
                    (case DeleteJob job s2 of
                       ((requeue, Some err), s3) \<Rightarrow> (Return emptyResult (Some err), s3)
                     | ((requeue, None), s3) \<Rightarrow> (Continue instance', s3)))))"

text \<open>Lines 194-229: the Deployment, given the desired one and its fingerprint.\<close>

definition syncDeployment ::
  "GlanceAPI \<Rightarrow> Deployment \<Rightarrow> string \<Rightarrow> store \<Rightarrow> unit flow \<times> store" where
  "syncDeployment instance deployment deploymentHash s =
     (case Get_Deployment (key deployment) s of
        (Inl err, s1) \<Rightarrow>
          if IsNotFound err then
            (case Create_Deployment deployment s1 of
               (Some err', s2) \<Rightarrow> (Return emptyResult (Some err'), s2)
             | (None, s2) \<Rightarrow> (Return (requeueAfter (Second * 10)) None, s2))
          else (Return emptyResult (Some err), s1)
      | (Inr foundDeployment, s1) \<Rightarrow>
          if DeploymentHash (Status instance) \<noteq> deploymentHash then
            (case Update_Deployment
                    (foundDeployment\<lparr>deploymentSpec := deploymentSpec deployment\<rparr>) s1 of
               (Some err, s2) \<Rightarrow> (Return emptyResult (Some err), s2)
             | (None, s2) \<Rightarrow>
                 (case setDeploymentHash instance deploymentHash s2 of
                    ((Some err, _), s3) \<Rightarrow> (Return emptyResult (Some err), s3)
                  | ((None, _), s3) \<Rightarrow> (Return (requeueAfter (Second * 10)) None, s3)))
          else if ReadyReplicas (deploymentStatus foundDeployment) = Replicas (Spec instance)
          then (Continue (), s1)
          else (Return (requeueAfter (Second * 5)) None, s1))"

text \<open>Lines 181-229: the fingerprints of ConfigMap and Deployment, then the Deployment.\<close>

definition reconcileDeployment ::
  "templates \<Rightarrow> GlanceAPI \<Rightarrow> ConfigMap \<Rightarrow> store \<Rightarrow> unit flow \<times> store" where
  "reconcileDeployment env instance configMap s =
     (case ObjectHash_ConfigMap env configMap of
        Inl err \<Rightarrow>
          (Return emptyResult (Some (Errorf ''error calculating config map hash: '' err)), s)
      | Inr configMapHash \<Rightarrow>
          (let deployment = glance_Deployment env instance configMapHash in
           case ObjectHash_Deployment env deployment of
             Inl err \<Rightarrow> (Return emptyResult (Some (Errorf ''error deployment hash: '' err)), s)
           | Inr deploymentHash \<Rightarrow> syncDeployment instance deployment deploymentHash s))"

text \<open>Lines 72-231: everything after the instance was fetched.\<close>

definition reconcileInstance ::
  "templates \<Rightarrow> GlanceAPI \<Rightarrow> store \<Rightarrow> (Result \<times> error option) \<times> store" where
  "reconcileInstance env instance s =
     (case reconcilePvc env instance s of
        (Return res err, s1) \<Rightarrow> ((res, err), s1)
      | (Continue _, s1) \<Rightarrow>
     (case reconcileService env instance s1 of
        (Return res err, s2) \<Rightarrow> ((res, err), s2)
      | (Continue _, s2) \<Rightarrow>
     (case reconcileConfigMap env instance s2 of
        (Return res err, s3) \<Rightarrow> ((res, err), s3)
      | (Continue configMap, s3) \<Rightarrow>
     (case reconcileSchema env instance s3 of
        (Return res err, s4) \<Rightarrow> ((res, err), s4)
      | (Continue _, s4) \<Rightarrow>
     (case reconcileDbSync env instance s4 of
        (Return res err, s5) \<Rightarrow> ((res, err), s5)
      | (Continue instance', s5) \<Rightarrow>
     (case reconcileDeployment env instance' configMap s5 of
        (Return res err, s6) \<Rightarrow> ((res, err), s6)
      | (Continue _, s6) \<Rightarrow> ((emptyResult, None), s6)))))))"

text \<open>Lines 54-70 and the rest: \<^verbatim>\<open>Reconcile(req)\<close>, one reconciliation pass.\<close>

definition Reconcile ::
  "templates \<Rightarrow> NamespacedName \<Rightarrow> store \<Rightarrow> (Result \<times> error option) \<times> store" where
  "Reconcile env req s =
     (case Get_GlanceAPI req s of
        (Inl err, s1) \<Rightarrow>
          if IsNotFound err then ((emptyResult, None), s1)
          else ((emptyResult, Some err), s1)
      | (Inr instance, s1) \<Rightarrow> reconcileInstance env instance s1)"

subsection \<open>The calls of one pass\<close>

text \<open>The calls logged between a store and a later one.\<close>

definition new_calls :: "store \<Rightarrow> store \<Rightarrow> (call \<times> error option) list" where
  "new_calls s s' = drop (length (calls s)) (calls s')"

text \<open>A write of the status subresource.\<close>

fun is_StatusUpdate :: "call \<Rightarrow> bool" where
  "is_StatusUpdate (StatusUpdate _ _) = True"
| "is_StatusUpdate _ = False"

text \<open>A call that creates or updates: a Create, an Update, or an update of the status.\<close>

fun creates_or_updates :: "call \<Rightarrow> bool" where
  "creates_or_updates (Create _ _) = True"
| "creates_or_updates (Update _ _) = True"
| "creates_or_updates (StatusUpdate _ _) = True"
| "creates_or_updates _ = False"

text \<open>A list of calls without a create or update call: fetches and deletions only.\<close>

definition no_create_or_update :: "(call \<times> error option) list \<Rightarrow> bool" where
  "no_create_or_update cs = list_all (\<lambda>x. \<not> creates_or_updates (fst x)) cs"

text \<open>The kind of object a call addresses.\<close>

fun call_kind :: "call \<Rightarrow> kind" where
  "call_kind (Get k _) = k"
| "call_kind (Create k _) = k"
| "call_kind (Update k _) = k"
| "call_kind (Delete k _) = k"
| "call_kind (StatusUpdate _ _) = KGlanceAPI"

text \<open>From one store to a later one, only calls on kinds in \<open>K\<close> were logged.\<close>

definition calls_in :: "kind set \<Rightarrow> store \<Rightarrow> store \<Rightarrow> bool" where
  "calls_in K s s' = (\<exists>cs. calls s' = calls s @ cs \<and> (\<forall>x\<in>set cs. call_kind (fst x) \<in> K))"

text \<open>
  From one store to a later one, no object of a kind outside \<open>K\<close> changed, and an
  exhausted script of errors stayed exhausted.
\<close>

definition frame :: "kind set \<Rightarrow> store \<Rightarrow> store \<Rightarrow> bool" where
  "frame K s s' =
     ((faults s = [] \<longrightarrow> faults s' = [])
      \<and> (KGlanceAPI \<notin> K \<longrightarrow> glanceapis s' = glanceapis s)
      \<and> (KPersistentVolumeClaim \<notin> K \<longrightarrow> pvcs s' = pvcs s)
      \<and> (KService \<notin> K \<longrightarrow> services s' = services s)
      \<and> (KConfigMap \<notin> K \<longrightarrow> configmaps s' = configmaps s)
      \<and> (KSchema \<notin> K \<longrightarrow> schemas s' = schemas s)
      \<and> (KJob \<notin> K \<longrightarrow> jobs s' = jobs s)
      \<and> (KDeployment \<notin> K \<longrightarrow> deployments s' = deployments s))"

text \<open>Both together: what a block may touch.\<close>

definition footprint :: "kind set \<Rightarrow> store \<Rightarrow> store \<Rightarrow> bool" where
  "footprint K s s' = (calls_in K s s' \<and> frame K s s')"

text \<open>From one store to a later one, no create or update call was logged.\<close>

definition unwritten :: "store \<Rightarrow> store \<Rightarrow> bool" where
  "unwritten s s' = (\<exists>cs. calls s' = calls s @ cs \<and> no_create_or_update cs)"

text \<open>
  Every write of a status in a list of calls is justified, relative to the status
  \<open>st0\<close> the pass fetched: a write that changes DbSyncHash comes after a successful fetch
  of the job \<open>jk\<close>, which had completed (\<open>jobdone\<close>); a write that changes DeploymentHash
  comes directly after a successful Update of a Deployment.
\<close>

definition justified ::
  "NamespacedName \<Rightarrow> GlanceAPIStatus \<Rightarrow> bool \<Rightarrow> (call \<times> error option) list \<Rightarrow> bool" where
  "justified jk st0 jobdone cs =
     (\<forall>before n st out after. cs = before @ (StatusUpdate n st, out) # after \<longrightarrow>
        (DbSyncHash st \<noteq> DbSyncHash st0 \<longrightarrow> jobdone \<and> (Get KJob jk, None) \<in> set before)
        \<and> (DeploymentHash st \<noteq> DeploymentHash st0 \<longrightarrow>
              (\<exists>pre n'. before = pre @ [(Update KDeployment n', None)])))"

subsection \<open>Well-formed stores\<close>

text \<open>
  Every object is stored under its own namespace and name; an object of a kind the
  reconciler updates (ConfigMap, Deployment) has a name; and no stored ConfigMap has an
  empty Data map (the store holds the nil map in its place).
\<close>

definition wf_store :: "store \<Rightarrow> bool" where
  "wf_store s =
     ((\<forall>n obj. glanceapis s n = Some obj \<longrightarrow> key obj = n)
      \<and> (\<forall>n obj. pvcs s n = Some obj \<longrightarrow> key obj = n)
      \<and> (\<forall>n obj. services s n = Some obj \<longrightarrow> key obj = n)
      \<and> (\<forall>n obj. configmaps s n = Some obj \<longrightarrow> key obj = n)
      \<and> (\<forall>n obj. schemas s n = Some obj \<longrightarrow> key obj = n)
      \<and> (\<forall>n obj. jobs s n = Some obj \<longrightarrow> key obj = n)
      \<and> (\<forall>n obj. deployments s n = Some obj \<longrightarrow> key obj = n)
      \<and> (\<forall>n obj. configmaps s n = Some obj \<longrightarrow> Name obj \<noteq> [])
      \<and> (\<forall>n obj. deployments s n = Some obj \<longrightarrow> Name obj \<noteq> [])
      \<and> (\<forall>n obj. configmaps s n = Some obj \<longrightarrow> omitempty (Data obj) = Data obj))"

subsection \<open>A concrete instance, its templates, and stores\<close>

definition exRequest :: NamespacedName where
  "exRequest = (''openstack'', ''glance'')"

definition exJobKey :: NamespacedName where
  "exJobKey = (''openstack'', ''glance-db-sync'')"

definition exInstance :: GlanceAPI where
  "exInstance =
     \<lparr>Name = ''glance'', Namespace = ''openstack'', Spec = \<lparr>Replicas = 1\<rparr>,
      Status = \<lparr>DbSyncHash = [], DeploymentHash = []\<rparr>\<rparr>"

definition exTemplates :: templates where
  "exTemplates =
     \<lparr>glance_Pvc = (\<lambda>i. \<lparr>Name = Name i, Namespace = Namespace i, pvcSpec = ''10G''\<rparr>),
      glance_Service = (\<lambda>i. \<lparr>Name = Name i, Namespace = Namespace i, svcSpec = ''9292''\<rparr>),
      glance_ConfigMap = (\<lambda>i. \<lparr>Name = Name i, Namespace = Namespace i,
         Data = Some (Mapping.update ''glance-api.conf'' ''[DEFAULT]'' Mapping.empty)\<rparr>),
      glance_SchemaObject = (\<lambda>i. Inr \<lparr>Name = Name i, Namespace = Namespace i,
         statusCompleted = FieldMissing\<rparr>),
      glance_DbSyncJob = (\<lambda>i. \<lparr>Name = Name i @ ''-db-sync'', Namespace = Namespace i,
         jobSpec = ''db_sync'', jobStatus = JobRunning\<rparr>),
      glance_Deployment = (\<lambda>i h. \<lparr>Name = Name i, Namespace = Namespace i,
         deploymentSpec = ''config='' @ h, deploymentStatus = \<lparr>ReadyReplicas = 0\<rparr>\<rparr>),
      ObjectHash_Job = (\<lambda>j. Inr (''#'' @ jobSpec j)),
      ObjectHash_ConfigMap = (\<lambda>c. Inr ''#cm''),
      ObjectHash_Deployment = (\<lambda>d. Inr (''#'' @ deploymentSpec d))\<rparr>"

text \<open>A fresh Specification: the instance and no live resource.\<close>

definition freshStore :: store where
  "freshStore =
     \<lparr>glanceapis = [exRequest \<mapsto> exInstance], pvcs = Map.empty, services = Map.empty,
      configmaps = Map.empty, schemas = Map.empty, jobs = Map.empty, deployments = Map.empty,
      calls = [], faults = []\<rparr>"

definition afterPass1 :: store where
  "afterPass1 = snd (Reconcile exTemplates exRequest freshStore)"

definition afterPass2 :: store where
  "afterPass2 = snd (Reconcile exTemplates exRequest afterPass1)"

definition afterPass3 :: store where
  "afterPass3 = snd (Reconcile exTemplates exRequest afterPass2)"

text \<open>PVC, Service and ConfigMap are live and as desired; no schema object, no job.\<close>

definition storeBeforeSchema :: store where
  "storeBeforeSchema =
     freshStore\<lparr>pvcs := [exRequest \<mapsto> glance_Pvc exTemplates exInstance],
                services := [exRequest \<mapsto> glance_Service exTemplates exInstance],
                configmaps := [exRequest \<mapsto> glance_ConfigMap exTemplates exInstance]\<rparr>"

text \<open>The live ConfigMap has drifted from the desired Data.\<close>

definition driftedConfigMap :: ConfigMap where
  "driftedConfigMap =
     \<lparr>Name = ''glance'', Namespace = ''openstack'',
      Data = Some (Mapping.update ''glance-api.conf'' ''[DEFAULT] debug = True'' Mapping.empty)\<rparr>"

definition driftedStore :: store where
  "driftedStore = storeBeforeSchema\<lparr>configmaps := [exRequest \<mapsto> driftedConfigMap]\<rparr>"

text \<open>The schema is completed and the job has succeeded; nothing is recorded in Status yet.\<close>

definition storeJobDone :: store where
  "storeJobDone =
     storeBeforeSchema\<lparr>schemas :=
       [exRequest \<mapsto> \<lparr>Name = ''glance'', Namespace = ''openstack'',
                        statusCompleted = FieldBool True\<rparr>],
       jobs := [exJobKey \<mapsto> \<lparr>Name = ''glance-db-sync'', Namespace = ''openstack'',
                               jobSpec = ''db_sync'', jobStatus = JobCompleted\<rparr>]\<rparr>"

text \<open>
  The Deployment is live with the desired spec but its fingerprint is not in Status:
  the store two passes after \<open>storeJobDone\<close>, up to the log.
\<close>

definition storeDeploymentCreated :: store where
  "storeDeploymentCreated =
     storeJobDone\<lparr>glanceapis :=
       [exRequest \<mapsto> exInstance\<lparr>Status := \<lparr>DbSyncHash = ''#db_sync'', DeploymentHash = []\<rparr>\<rparr>],
       jobs := Map.empty,
       deployments := [exRequest \<mapsto> glance_Deployment exTemplates exInstance ''#cm'']\<rparr>"

text \<open>Everything is live, as desired, recorded in Status, and ready.\<close>

definition convergedInstance :: GlanceAPI where
  "convergedInstance =
     exInstance\<lparr>Status := \<lparr>DbSyncHash = ''#db_sync'', DeploymentHash = ''#config=#cm''\<rparr>\<rparr>"

definition convergedStore :: store where
  "convergedStore =
     storeJobDone\<lparr>glanceapis := [exRequest \<mapsto> convergedInstance],
       jobs := Map.empty,
       deployments :=
         [exRequest \<mapsto> \<lparr>Name = ''glance'', Namespace = ''openstack'',
                          deploymentSpec = ''config=#cm'',
                          deploymentStatus = \<lparr>ReadyReplicas = 1\<rparr>\<rparr>]\<rparr>"

text \<open>The converged store, with a transient error on the fourth call of the next pass.\<close>

definition storeConfigMapFetchFails :: store where
  "storeConfigMapFetchFails =
     convergedStore\<lparr>faults := [None, None, None, Some (StoreError ''request timed out'')]\<rparr>"

text \<open>
  As \<open>storeDeploymentCreated\<close>, with all replicas of the Deployment ready: every
  resource is live and as desired, the schema is completed, the job's fingerprint is
  recorded and the job is gone; only the Deployment's fingerprint is not in Status.
\<close>

definition storeDeploymentReady :: store where
  "storeDeploymentReady =
     storeDeploymentCreated\<lparr>deployments :=
       [exRequest \<mapsto> (glance_Deployment exTemplates exInstance ''#cm'')
                         \<lparr>deploymentStatus := \<lparr>ReadyReplicas = 1\<rparr>\<rparr>]\<rparr>"

text \<open>
  The scenario of a fresh Specification, continued after the third pass: the passes of
  the reconciler, and between them what the cluster does on its own (the schema is
  completed, the job succeeds, the replicas become ready).
\<close>

definition gateReady :: store where
  "gateReady =
     afterPass3\<lparr>schemas :=
       [exRequest \<mapsto> \<lparr>Name = ''glance'', Namespace = ''openstack'',
                        statusCompleted = FieldBool True\<rparr>]\<rparr>"

definition afterPass4 :: store where
  "afterPass4 = snd (Reconcile exTemplates exRequest gateReady)"

definition jobSucceeded :: store where
  "jobSucceeded =
     afterPass4\<lparr>jobs :=
       [exJobKey \<mapsto> \<lparr>Name = ''glance-db-sync'', Namespace = ''openstack'',
                       jobSpec = ''db_sync'', jobStatus = JobCompleted\<rparr>]\<rparr>"

definition afterPass5 :: store where
  "afterPass5 = snd (Reconcile exTemplates exRequest jobSucceeded)"

definition replicasReady :: store where
  "replicasReady =
     afterPass5\<lparr>deployments :=
       [exRequest \<mapsto> \<lparr>Name = ''glance'', Namespace = ''openstack'',
                        deploymentSpec = ''config=#cm'',
                        deploymentStatus = \<lparr>ReadyReplicas = 1\<rparr>\<rparr>]\<rparr>"

definition afterPass6 :: store where
  "afterPass6 = snd (Reconcile exTemplates exRequest replicasReady)"

text \<open>The converged store in which the completed job has not been deleted yet.\<close>

definition storeJobLeft :: store where
  "storeJobLeft =
     convergedStore\<lparr>jobs :=
       [exJobKey \<mapsto> \<lparr>Name = ''glance-db-sync'', Namespace = ''openstack'',
                       jobSpec = ''db_sync'', jobStatus = JobCompleted\<rparr>]\<rparr>"

text \<open>The converged store before the replica of the Deployment is ready.\<close>

definition storeNotReady :: store where
  "storeNotReady =
     convergedStore\<lparr>deployments :=
       [exRequest \<mapsto> \<lparr>Name = ''glance'', Namespace = ''openstack'',
                        deploymentSpec = ''config=#cm'',
                        deploymentStatus = \<lparr>ReadyReplicas = 0\<rparr>\<rparr>]\<rparr>"

text \<open>The drifted ConfigMap in a store that has no PVC yet.\<close>

definition driftedStoreNoPvc :: store where
  "driftedStoreNoPvc = driftedStore\<lparr>pvcs := Map.empty\<rparr>"

text \<open>
  Templates whose ConfigMap has an empty, non-nil Data map, and the store after one pass
  with them on the drifted store.
\<close>

definition exTemplatesNoData :: templates where
  "exTemplatesNoData =
     exTemplates\<lparr>glance_ConfigMap :=
       (\<lambda>i. \<lparr>Name = Name i, Namespace = Namespace i, Data = Some Mapping.empty\<rparr>)\<rparr>"

definition afterUpdate :: store where
  "afterUpdate = snd (Reconcile exTemplatesNoData exRequest driftedStore)"

section \<open>Properties\<close>

lemmas client_defs = injected_def record_call_def client_get_def client_write_def
  exists_error_def missing_error_def update_error_def stored_ConfigMap_def Get_GlanceAPI_def Get_Pvc_def Get_Service_def
  Get_ConfigMap_def Get_Schema_def Get_Job_def Get_Deployment_def Create_Pvc_def
  Create_Service_def Create_ConfigMap_def Create_Schema_def Create_Job_def
  Create_Deployment_def Update_ConfigMap_def Update_Deployment_def Delete_Job_def
  Status_Update_def

lemmas reconcile_defs = Reconcile_def reconcileInstance_def reconcilePvc_def
  reconcileService_def reconcileConfigMap_def updateConfigMap_def reconcileSchema_def
  runDbSync_def reconcileDbSync_def syncDeployment_def reconcileDeployment_def EnsureJob_def
  DeleteJob_def setDbSyncHash_def setDeploymentHash_def IsNotFound_def key_def Let_def

lemmas example_defs = exRequest_def exJobKey_def exInstance_def exTemplates_def freshStore_def
  storeBeforeSchema_def storeJobDone_def convergedInstance_def convergedStore_def new_calls_def
  emptyResult_def requeueAfter_def Second_def zeroConfigMap_def

subsection \<open>Footprints of the client calls and of the blocks\<close>

text \<open>
  Each call of the client logs itself and touches at most the objects of its own kind.
  The blocks of \<open>Reconcile\<close> inherit this: the PVC block touches PVCs only, and so on;
  the job block touches jobs and the instance's status, the Deployment block Deployments
  and the instance's status.
\<close>

lemmas phase_splits = option.splits if_splits prod.splits sum.splits

lemma record_call_simps [simp]:
  "calls (record_call c out s) = calls s @ [(c, out)]"
  "faults (record_call c out s) = tl (faults s)"
  "glanceapis (record_call c out s) = glanceapis s"
  "pvcs (record_call c out s) = pvcs s"
  "services (record_call c out s) = services s"
  "configmaps (record_call c out s) = configmaps s"
  "schemas (record_call c out s) = schemas s"
  "jobs (record_call c out s) = jobs s"
  "deployments (record_call c out s) = deployments s"
  by (simp_all add: record_call_def)

lemma omitempty_simps [simp]:
  "omitempty None = None"
  "omitempty (Some m) = (if Mapping.is_empty m then None else Some m)"
  "omitempty (omitempty d) = omitempty d"
  by (simp_all add: omitempty_def split: option.splits)

lemma empty_neq_update [simp]:
  "Mapping.update k v m \<noteq> Mapping.empty" "Mapping.empty \<noteq> Mapping.update k v m"
  by (metis Mapping.is_empty_empty Mapping.is_empty_update)+

lemma is_empty_iff: "Mapping.is_empty m \<longleftrightarrow> m = Mapping.empty"
  unfolding Mapping.is_empty_def by transfer auto

lemma wf_store_configmap:
  assumes "wf_store s" and "configmaps s n = Some obj"
  shows "key obj = n" and "omitempty (Data obj) = Data obj" and "stored_ConfigMap obj = obj"
    and "Name obj \<noteq> []"
proof -
  from assms show "key obj = n"
    unfolding wf_store_def by blast
  from assms show "Name obj \<noteq> []"
    unfolding wf_store_def by blast
  from assms show "omitempty (Data obj) = Data obj"
    unfolding wf_store_def by blast
  then show "stored_ConfigMap obj = obj"
    by (simp add: stored_ConfigMap_def)
qed

lemma calls_in_refl: "calls_in K s s"
  unfolding calls_in_def by (rule exI [of _ "[]"]) simp

lemma calls_in_trans:
  assumes "calls_in K s s'" and "calls_in K s' s''"
  shows "calls_in K s s''"
proof -
  from assms(1) obtain cs where
    cs: "calls s' = calls s @ cs" "\<forall>x\<in>set cs. call_kind (fst x) \<in> K"
    unfolding calls_in_def by blast
  from assms(2) obtain cs' where
    cs': "calls s'' = calls s' @ cs'" "\<forall>x\<in>set cs'. call_kind (fst x) \<in> K"
    unfolding calls_in_def by blast
  have "calls s'' = calls s @ (cs @ cs')"
    using cs(1) cs'(1) by simp
  moreover have "\<forall>x\<in>set (cs @ cs'). call_kind (fst x) \<in> K"
    using cs(2) cs'(2) by auto
  ultimately show ?thesis
    unfolding calls_in_def by blast
qed

lemma calls_in_mono: "calls_in K s s' \<Longrightarrow> K \<subseteq> K' \<Longrightarrow> calls_in K' s s'"
  unfolding calls_in_def by blast

lemma frame_refl: "frame K s s"
  by (simp add: frame_def)

lemma frame_trans: "frame K s s' \<Longrightarrow> frame K s' s'' \<Longrightarrow> frame K s s''"
  by (simp add: frame_def)

lemma frame_mono: "frame K s s' \<Longrightarrow> K \<subseteq> K' \<Longrightarrow> frame K' s s'"
  unfolding frame_def by blast

lemma footprint_refl: "footprint K s s"
  by (simp add: footprint_def calls_in_refl frame_refl)

lemma footprint_trans: "footprint K s s' \<Longrightarrow> footprint K s' s'' \<Longrightarrow> footprint K s s''"
  unfolding footprint_def by (blast intro: calls_in_trans frame_trans)

lemma footprint_mono: "footprint K s s' \<Longrightarrow> K \<subseteq> K' \<Longrightarrow> footprint K' s s'"
  unfolding footprint_def by (blast intro: calls_in_mono frame_mono)

lemma footprint_get:
  assumes "client_get k n found s = (r, s')"
  shows "footprint {k} s s'"
proof -
  from assms obtain e where "s' = record_call (Get k n) e s"
    by (auto simp: client_get_def split: option.splits)
  then show ?thesis
    by (simp add: footprint_def calls_in_def frame_def)
qed

lemma footprint_write:
  assumes "client_write c refused effect s = (out, s')"
    and "\<And>t. calls (effect t) = calls t" and "\<And>t. faults (effect t) = faults t"
    and "\<And>t. KGlanceAPI \<noteq> call_kind c \<Longrightarrow> glanceapis (effect t) = glanceapis t"
    and "\<And>t. KPersistentVolumeClaim \<noteq> call_kind c \<Longrightarrow> pvcs (effect t) = pvcs t"
    and "\<And>t. KService \<noteq> call_kind c \<Longrightarrow> services (effect t) = services t"
    and "\<And>t. KConfigMap \<noteq> call_kind c \<Longrightarrow> configmaps (effect t) = configmaps t"
    and "\<And>t. KSchema \<noteq> call_kind c \<Longrightarrow> schemas (effect t) = schemas t"
    and "\<And>t. KJob \<noteq> call_kind c \<Longrightarrow> jobs (effect t) = jobs t"
    and "\<And>t. KDeployment \<noteq> call_kind c \<Longrightarrow> deployments (effect t) = deployments t"
  shows "footprint {call_kind c} s s'"
proof -
  from assms(1) consider "s' = record_call c out s" | "s' = record_call c out (effect s)"
    by (auto simp: client_write_def split: option.splits)
  then show ?thesis
    using assms(2-) by cases (simp_all add: footprint_def calls_in_def frame_def)
qed

lemma Get_footprints:
  "Get_GlanceAPI n s = (ra, s') \<Longrightarrow> footprint {KGlanceAPI} s s'"
  "Get_Pvc n s = (rp, s') \<Longrightarrow> footprint {KPersistentVolumeClaim} s s'"
  "Get_Service n s = (rs, s') \<Longrightarrow> footprint {KService} s s'"
  "Get_ConfigMap n s = (rc, s') \<Longrightarrow> footprint {KConfigMap} s s'"
  "Get_Schema n s = (ru, s') \<Longrightarrow> footprint {KSchema} s s'"
  "Get_Job n s = (rj, s') \<Longrightarrow> footprint {KJob} s s'"
  "Get_Deployment n s = (rd, s') \<Longrightarrow> footprint {KDeployment} s s'"
  unfolding Get_GlanceAPI_def Get_Pvc_def Get_Service_def Get_ConfigMap_def Get_Schema_def
    Get_Job_def Get_Deployment_def
  by (erule footprint_get)+

lemma write_footprints:
  "Create_Pvc pvc s = (out, s') \<Longrightarrow> footprint {KPersistentVolumeClaim} s s'"
  "Create_Service svc s = (out, s') \<Longrightarrow> footprint {KService} s s'"
  "Create_ConfigMap cm s = (out, s') \<Longrightarrow> footprint {KConfigMap} s s'"
  "Update_ConfigMap cm s = (out, s') \<Longrightarrow> footprint {KConfigMap} s s'"
  "Create_Schema so s = (out, s') \<Longrightarrow> footprint {KSchema} s s'"
  "Create_Job job s = (out, s') \<Longrightarrow> footprint {KJob} s s'"
  "Delete_Job job s = (out, s') \<Longrightarrow> footprint {KJob} s s'"
  "Create_Deployment d s = (out, s') \<Longrightarrow> footprint {KDeployment} s s'"
  "Update_Deployment d s = (out, s') \<Longrightarrow> footprint {KDeployment} s s'"
  "Status_Update api s = (out, s') \<Longrightarrow> footprint {KGlanceAPI} s s'"
  unfolding Create_Pvc_def Create_Service_def Create_ConfigMap_def Update_ConfigMap_def
    Create_Schema_def Create_Job_def Delete_Job_def Create_Deployment_def Update_Deployment_def
    Status_Update_def
  by (drule footprint_write; simp)+

lemmas fp_intros = footprint_refl footprint_trans
lemmas fp_dests = Get_footprints write_footprints

lemma reconcilePvc_footprint:
  "reconcilePvc env inst s = (r, s') \<Longrightarrow> footprint {KPersistentVolumeClaim} s s'"
  unfolding reconcilePvc_def Let_def
  by (auto split: phase_splits dest!: fp_dests intro: fp_intros)

lemma reconcileService_footprint:
  "reconcileService env inst s = (r, s') \<Longrightarrow> footprint {KService} s s'"
  unfolding reconcileService_def Let_def
  by (auto split: phase_splits dest!: fp_dests intro: fp_intros)

lemma reconcileConfigMap_footprint:
  "reconcileConfigMap env inst s = (r, s') \<Longrightarrow> footprint {KConfigMap} s s'"
  unfolding reconcileConfigMap_def updateConfigMap_def Let_def
  by (auto split: phase_splits dest!: fp_dests intro: fp_intros)

lemma reconcileSchema_footprint:
  "reconcileSchema env inst s = (r, s') \<Longrightarrow> footprint {KSchema} s s'"
  unfolding reconcileSchema_def Let_def
  by (auto split: phase_splits dest!: fp_dests intro: fp_intros)

lemma EnsureJob_footprint:
  "EnsureJob job s = (r, s') \<Longrightarrow> footprint {KJob} s s'"
  unfolding EnsureJob_def
  by (auto split: phase_splits JobState.splits dest!: fp_dests intro: fp_intros)

lemma DeleteJob_footprint:
  "DeleteJob job s = (r, s') \<Longrightarrow> footprint {KJob} s s'"
  unfolding DeleteJob_def
  by (auto split: phase_splits dest!: fp_dests intro: fp_intros)

lemma setDbSyncHash_footprint:
  "setDbSyncHash api h s = (r, s') \<Longrightarrow> footprint {KGlanceAPI} s s'"
  unfolding setDbSyncHash_def Let_def
  by (auto split: phase_splits dest!: fp_dests intro: fp_intros)

lemma setDeploymentHash_footprint:
  "setDeploymentHash api h s = (r, s') \<Longrightarrow> footprint {KGlanceAPI} s s'"
  unfolding setDeploymentHash_def Let_def
  by (auto split: phase_splits dest!: fp_dests intro: fp_intros)

lemma runDbSync_footprint:
  "runDbSync inst job h s = (r, s') \<Longrightarrow> footprint {KJob} s s'"
  unfolding runDbSync_def
  by (auto split: phase_splits dest!: EnsureJob_footprint intro: fp_intros)

lemma footprint_Job_wider: "footprint {KJob} s s' \<Longrightarrow> footprint {KJob, KGlanceAPI} s s'"
  and footprint_API_wider: "footprint {KGlanceAPI} s s' \<Longrightarrow> footprint {KJob, KGlanceAPI} s s'"
  and footprint_Deployment_wider:
    "footprint {KDeployment} s s' \<Longrightarrow> footprint {KDeployment, KGlanceAPI} s s'"
  and footprint_API_wider':
    "footprint {KGlanceAPI} s s' \<Longrightarrow> footprint {KDeployment, KGlanceAPI} s s'"
  by (erule footprint_mono, simp)+

lemma reconcileDbSync_footprint:
  "reconcileDbSync env inst s = (r, s') \<Longrightarrow> footprint {KJob, KGlanceAPI} s s'"
  unfolding reconcileDbSync_def Let_def
  by (auto split: phase_splits flow.splits
      dest!: runDbSync_footprint setDbSyncHash_footprint DeleteJob_footprint
             footprint_Job_wider footprint_API_wider
      intro: fp_intros)

lemma syncDeployment_footprint:
  "syncDeployment inst d h s = (r, s') \<Longrightarrow> footprint {KDeployment, KGlanceAPI} s s'"
  unfolding syncDeployment_def
  by (auto split: phase_splits
      dest!: fp_dests setDeploymentHash_footprint footprint_Deployment_wider footprint_API_wider'
      intro: fp_intros)

lemma reconcileDeployment_footprint:
  "reconcileDeployment env inst cm s = (r, s') \<Longrightarrow> footprint {KDeployment, KGlanceAPI} s s'"
  unfolding reconcileDeployment_def Let_def
  by (auto split: phase_splits dest!: syncDeployment_footprint intro: fp_intros)

subsection \<open>Running a pass on a symbolic store\<close>

text \<open>
  \<open>run_defs\<close> unfolds a pass down to the store; \<open>reconcileInstance_cases\<close> splits a
  pass by the block that returned.
\<close>

lemma key_update_simps [simp]:
  "key (cm\<lparr>Data := d\<rparr>) = key cm"
  "key (dep\<lparr>deploymentSpec := x\<rparr>) = key dep"
  "key (api\<lparr>Status := st\<rparr>) = key api"
  by (simp_all add: key_def)

lemmas run_defs = Reconcile_def reconcileInstance_def reconcilePvc_def
  reconcileService_def reconcileConfigMap_def updateConfigMap_def reconcileSchema_def
  runDbSync_def reconcileDbSync_def syncDeployment_def reconcileDeployment_def EnsureJob_def
  DeleteJob_def setDbSyncHash_def setDeploymentHash_def IsNotFound_def Let_def
  injected_def client_get_def client_write_def
  exists_error_def missing_error_def update_error_def stored_ConfigMap_def
  Get_GlanceAPI_def Get_Pvc_def Get_Service_def
  Get_ConfigMap_def Get_Schema_def Get_Job_def Get_Deployment_def Create_Pvc_def
  Create_Service_def Create_ConfigMap_def Create_Schema_def Create_Job_def
  Create_Deployment_def Update_ConfigMap_def Update_Deployment_def Delete_Job_def
  Status_Update_def

lemma reconcileInstance_cases:
  assumes "reconcileInstance env inst s = (r, s')"
  obtains
    (pvc) res err where
      "reconcilePvc env inst s = (Return res err, s')" "r = (res, err)"
  | (service) s1 res err where
      "reconcilePvc env inst s = (Continue (), s1)"
      "reconcileService env inst s1 = (Return res err, s')" "r = (res, err)"
  | (configmap) s1 s2 res err where
      "reconcilePvc env inst s = (Continue (), s1)"
      "reconcileService env inst s1 = (Continue (), s2)"
      "reconcileConfigMap env inst s2 = (Return res err, s')" "r = (res, err)"
  | (schema) s1 s2 cm s3 res err where
      "reconcilePvc env inst s = (Continue (), s1)"
      "reconcileService env inst s1 = (Continue (), s2)"
      "reconcileConfigMap env inst s2 = (Continue cm, s3)"
      "reconcileSchema env inst s3 = (Return res err, s')" "r = (res, err)"
  | (dbsync) s1 s2 cm s3 s4 res err where
      "reconcilePvc env inst s = (Continue (), s1)"
      "reconcileService env inst s1 = (Continue (), s2)"
      "reconcileConfigMap env inst s2 = (Continue cm, s3)"
      "reconcileSchema env inst s3 = (Continue (), s4)"
      "reconcileDbSync env inst s4 = (Return res err, s')" "r = (res, err)"
  | (deployment) s1 s2 cm s3 s4 inst' s5 res err where
      "reconcilePvc env inst s = (Continue (), s1)"
      "reconcileService env inst s1 = (Continue (), s2)"
      "reconcileConfigMap env inst s2 = (Continue cm, s3)"
      "reconcileSchema env inst s3 = (Continue (), s4)"
      "reconcileDbSync env inst s4 = (Continue inst', s5)"
      "reconcileDeployment env inst' cm s5 = (Return res err, s')" "r = (res, err)"
  | (finished) s1 s2 cm s3 s4 inst' s5 where
      "reconcilePvc env inst s = (Continue (), s1)"
      "reconcileService env inst s1 = (Continue (), s2)"
      "reconcileConfigMap env inst s2 = (Continue cm, s3)"
      "reconcileSchema env inst s3 = (Continue (), s4)"
      "reconcileDbSync env inst s4 = (Continue inst', s5)"
      "reconcileDeployment env inst' cm s5 = (Continue (), s')" "r = (emptyResult, None)"
  using assms unfolding reconcileInstance_def
  by (auto split: prod.splits flow.splits)

lemma footprint_calls_in: "footprint K s s' \<Longrightarrow> K \<subseteq> K' \<Longrightarrow> calls_in K' s s'"
  unfolding footprint_def by (blast intro: calls_in_mono)

lemma reconcileInstance_after_configmap:
  assumes "reconcileInstance env inst s = (r, s')"
    and "reconcilePvc env inst s = (Continue (), s1)"
    and "reconcileService env inst s1 = (Continue (), s2)"
    and "reconcileConfigMap env inst s2 = (Continue cm, s3)"
  shows "calls_in {KSchema, KJob, KGlanceAPI, KDeployment} s3 s'"
  using assms(1)
proof (cases rule: reconcileInstance_cases)
  case (schema t1 t2 cm' t3 res err)
  with assms have "reconcileSchema env inst s3 = (Return res err, s')" by simp
  then show ?thesis
    by (blast intro: footprint_calls_in dest: reconcileSchema_footprint)
next
  case (dbsync t1 t2 cm' t3 t4 res err)
  with assms have "reconcileSchema env inst s3 = (Continue (), t4)" by simp
  then have "calls_in {KSchema, KJob, KGlanceAPI, KDeployment} s3 t4"
    by (blast intro: footprint_calls_in dest: reconcileSchema_footprint)
  moreover have "calls_in {KSchema, KJob, KGlanceAPI, KDeployment} t4 s'"
    using dbsync(5) by (blast intro: footprint_calls_in dest: reconcileDbSync_footprint)
  ultimately show ?thesis by (rule calls_in_trans)
next
  case (deployment t1 t2 cm' t3 t4 inst' t5 res err)
  with assms have "reconcileSchema env inst s3 = (Continue (), t4)" by simp
  then have "calls_in {KSchema, KJob, KGlanceAPI, KDeployment} s3 t4"
    by (blast intro: footprint_calls_in dest: reconcileSchema_footprint)
  moreover have "calls_in {KSchema, KJob, KGlanceAPI, KDeployment} t4 t5"
    using deployment(5) by (blast intro: footprint_calls_in dest: reconcileDbSync_footprint)
  moreover have "calls_in {KSchema, KJob, KGlanceAPI, KDeployment} t5 s'"
    using deployment(6) by (blast intro: footprint_calls_in dest: reconcileDeployment_footprint)
  ultimately show ?thesis by (blast intro: calls_in_trans)
next
  case (finished t1 t2 cm' t3 t4 inst' t5)
  with assms have "reconcileSchema env inst s3 = (Continue (), t4)" by simp
  then have "calls_in {KSchema, KJob, KGlanceAPI, KDeployment} s3 t4"
    by (blast intro: footprint_calls_in dest: reconcileSchema_footprint)
  moreover have "calls_in {KSchema, KJob, KGlanceAPI, KDeployment} t4 t5"
    using finished(5) by (blast intro: footprint_calls_in dest: reconcileDbSync_footprint)
  moreover have "calls_in {KSchema, KJob, KGlanceAPI, KDeployment} t5 s'"
    using finished(6) by (blast intro: footprint_calls_in dest: reconcileDeployment_footprint)
  ultimately show ?thesis by (blast intro: calls_in_trans)
qed (use assms in simp_all)

lemmas head_defs = Reconcile_def reconcilePvc_def
  reconcileService_def reconcileConfigMap_def updateConfigMap_def IsNotFound_def Let_def
  injected_def client_get_def client_write_def
  exists_error_def missing_error_def update_error_def stored_ConfigMap_def
  Get_GlanceAPI_def Get_Pvc_def Get_Service_def
  Get_ConfigMap_def Create_Pvc_def Create_Service_def Create_ConfigMap_def Update_ConfigMap_def

subsection \<open>Where a pass writes the status\<close>

text \<open>
  The job block writes the status at most once, directly after \<open>EnsureJob\<close> has fetched
  a completed job; the Deployment block writes it at most once, directly after a
  successful Update. No other block writes it.
\<close>

lemma EnsureJob_succeeded:
  assumes "EnsureJob job s = ((False, None), s1)"
  shows "calls s1 = calls s @ [(Get KJob (key job), None)]
         \<and> (\<exists>j. jobs s (key job) = Some j \<and> jobStatus j = JobCompleted)"
  using assms
  by (auto simp: EnsureJob_def Get_Job_def Create_Job_def client_get_def client_write_def
      split: phase_splits JobState.splits)

lemma Status_Update_calls:
  assumes "Status_Update api s = (e, s')"
  shows "calls s' = calls s @ [(StatusUpdate (key api) (Status api), e)]"
  using assms
  by (auto simp: Status_Update_def client_write_def split: phase_splits)

lemma runDbSync_continue:
  assumes "runDbSync inst job h s = (Continue u, s1)"
  shows "(h = DbSyncHash (Status inst) \<and> s1 = s)
         \<or> (h \<noteq> DbSyncHash (Status inst) \<and> EnsureJob job s = ((False, None), s1))"
  using assms by (auto simp: runDbSync_def split: phase_splits)

lemma runDbSync_return:
  assumes "runDbSync inst job h s = (Return res err, s1)"
  shows "calls_in {KJob} s s1"
  using assms
  by (auto simp: runDbSync_def split: phase_splits
      dest!: EnsureJob_footprint intro: footprint_calls_in)

lemma reconcileDbSync_shape:
  assumes "reconcileDbSync env inst s = (r, s')"
  shows "(calls_in {KJob} s s' \<and> (\<forall>inst'. r = Continue inst' \<longrightarrow> inst' = inst))
       \<or> (\<exists>h e s2. ObjectHash_Job env (glance_DbSyncJob env inst) = Inr h
             \<and> h \<noteq> DbSyncHash (Status inst)
             \<and> (\<exists>j. jobs s (key (glance_DbSyncJob env inst)) = Some j
                     \<and> jobStatus j = JobCompleted)
             \<and> calls s2 = calls s @
                  [(Get KJob (key (glance_DbSyncJob env inst)), None),
                   (StatusUpdate (key inst) ((Status inst)\<lparr>DbSyncHash := h\<rparr>), e)]
             \<and> calls_in {KJob} s2 s'
             \<and> (\<forall>inst'. r = Continue inst' \<longrightarrow>
                    inst' = inst\<lparr>Status := (Status inst)\<lparr>DbSyncHash := h\<rparr>\<rparr>))"
proof (cases "ObjectHash_Job env (glance_DbSyncJob env inst)")
  case (Inl err)
  with assms have "s' = s" "\<forall>inst'. r \<noteq> Continue inst'"
    by (auto simp: reconcileDbSync_def Let_def)
  then show ?thesis
    by (simp add: calls_in_refl)
next
  case (Inr h)
  let ?job = "glance_DbSyncJob env inst"
  obtain r1 s1 where run: "runDbSync inst ?job h s = (r1, s1)"
    by (cases "runDbSync inst ?job h s") auto
  show ?thesis
  proof (cases r1)
    case (Return res err)
    with assms Inr run have "s' = s1" "\<forall>inst'. r \<noteq> Continue inst'"
      by (auto simp: reconcileDbSync_def Let_def)
    with runDbSync_return run Return show ?thesis
      by blast
  next
    case (Continue u)
    obtain e inst1 s2 where set: "setDbSyncHash inst h s1 = ((e, inst1), s2)"
      by (cases "setDbSyncHash inst h s1") auto
    have tail: "calls_in {KJob} s2 s' \<and> (\<forall>inst'. r = Continue inst' \<longrightarrow> inst' = inst1)"
      using assms Inr run Continue set
      by (auto simp: reconcileDbSync_def Let_def calls_in_refl split: phase_splits
          dest!: DeleteJob_footprint intro: footprint_calls_in)
    from runDbSync_continue run Continue
    consider "h = DbSyncHash (Status inst)" "s1 = s"
      | "h \<noteq> DbSyncHash (Status inst)" "EnsureJob ?job s = ((False, None), s1)"
      by blast
    then show ?thesis
    proof cases
      case 1
      with set have "s2 = s" "inst1 = inst"
        by (simp_all add: setDbSyncHash_def)
      with tail show ?thesis by simp
    next
      case 2
      from EnsureJob_succeeded [OF 2(2)]
      have ej: "calls s1 = calls s @ [(Get KJob (key ?job), None)]"
        "\<exists>j. jobs s (key ?job) = Some j \<and> jobStatus j = JobCompleted"
        by simp_all
      from set 2(1) have "inst1 = inst\<lparr>Status := (Status inst)\<lparr>DbSyncHash := h\<rparr>\<rparr>"
        and "calls s2 = calls s1 @ [(StatusUpdate (key inst) ((Status inst)\<lparr>DbSyncHash := h\<rparr>), e)]"
        by (auto simp: setDbSyncHash_def Let_def split: phase_splits
            dest!: Status_Update_calls)
      with ej tail Inr 2(1) show ?thesis
        by auto
    qed
  qed
qed

lemma syncDeployment_shape:
  assumes "syncDeployment inst d dh s = (r, s')"
  shows "calls_in {KDeployment} s s'
       \<or> (\<exists>n' e. dh \<noteq> DeploymentHash (Status inst)
             \<and> calls s' = calls s @
                  [(Get KDeployment (key d), None),
                   (Update KDeployment n', None),
                   (StatusUpdate (key inst) ((Status inst)\<lparr>DeploymentHash := dh\<rparr>), e)])"
  using assms
  by (auto simp: syncDeployment_def setDeploymentHash_def Let_def calls_in_def
        Get_Deployment_def Create_Deployment_def Update_Deployment_def
        client_get_def client_write_def
      split: phase_splits dest!: Status_Update_calls)

lemma reconcileDeployment_shape:
  assumes "reconcileDeployment env inst cm s = (r, s')"
  shows "calls_in {KDeployment} s s'
       \<or> (\<exists>k n' e dh. dh \<noteq> DeploymentHash (Status inst)
             \<and> calls s' = calls s @
                  [(Get KDeployment k, None),
                   (Update KDeployment n', None),
                   (StatusUpdate (key inst) ((Status inst)\<lparr>DeploymentHash := dh\<rparr>), e)])"
  using assms
  by (auto simp: reconcileDeployment_def Let_def calls_in_refl split: phase_splits
      dest!: syncDeployment_shape)

lemma justifiedD:
  assumes "justified jk st0 jobdone cs" and "cs = before @ (StatusUpdate n st, out) # after"
  shows "(DbSyncHash st \<noteq> DbSyncHash st0 \<longrightarrow> jobdone \<and> (Get KJob jk, None) \<in> set before)
        \<and> (DeploymentHash st \<noteq> DeploymentHash st0 \<longrightarrow>
              (\<exists>pre n'. before = pre @ [(Update KDeployment n', None)]))"
  using assms unfolding justified_def by blast

lemma justified_quiet:
  assumes "\<forall>y\<in>set cs. \<not> is_StatusUpdate (fst y)"
  shows "justified jk st0 jd cs"
  unfolding justified_def using assms by fastforce

lemma justified_append:
  assumes "justified jk st0 jd xs"
    and "\<And>before n st out after. ys = before @ (StatusUpdate n st, out) # after \<Longrightarrow>
           (DbSyncHash st \<noteq> DbSyncHash st0 \<longrightarrow>
              jd \<and> (Get KJob jk, None) \<in> set (xs @ before))
           \<and> (DeploymentHash st \<noteq> DeploymentHash st0 \<longrightarrow>
                (\<exists>pre n'. before = pre @ [(Update KDeployment n', None)]))"
  shows "justified jk st0 jd (xs @ ys)"
  unfolding justified_def
proof (intro allI impI)
  fix before n st out after
  assume eq: "xs @ ys = before @ (StatusUpdate n st, out) # after"
  then consider
    (left) a where "xs = before @ (StatusUpdate n st, out) # a"
    | (right) b where "before = xs @ b" "ys = b @ (StatusUpdate n st, out) # after"
    by (auto simp: append_eq_append_conv2 append_eq_Cons_conv)
  then show "(DbSyncHash st \<noteq> DbSyncHash st0 \<longrightarrow> jd \<and> (Get KJob jk, None) \<in> set before)
        \<and> (DeploymentHash st \<noteq> DeploymentHash st0 \<longrightarrow>
              (\<exists>pre n'. before = pre @ [(Update KDeployment n', None)]))"
  proof cases
    case left
    from justifiedD [OF assms(1) left] show ?thesis .
  next
    case right
    from assms(2) [OF right(2)] right(1) show ?thesis
      by auto
  qed
qed

lemma justified_prepend_quiet:
  assumes "\<forall>y\<in>set xs. \<not> is_StatusUpdate (fst y)" and "justified jk st0 jd ys"
  shows "justified jk st0 jd (xs @ ys)"
proof (rule justified_append [OF justified_quiet [OF assms(1)]])
  fix before n st out after
  assume "ys = before @ (StatusUpdate n st, out) # after"
  from justifiedD [OF assms(2) this]
  show "(DbSyncHash st \<noteq> DbSyncHash st0 \<longrightarrow>
              jd \<and> (Get KJob jk, None) \<in> set (xs @ before))
           \<and> (DeploymentHash st \<noteq> DeploymentHash st0 \<longrightarrow>
                (\<exists>pre n'. before = pre @ [(Update KDeployment n', None)]))"
    by simp
qed

lemma justified_append_quiet:
  assumes "justified jk st0 jd xs" and "\<forall>y\<in>set ys. \<not> is_StatusUpdate (fst y)"
  shows "justified jk st0 jd (xs @ ys)"
proof (rule justified_append [OF assms(1)])
  fix before n st out after
  assume "ys = before @ (StatusUpdate n st, out) # after"
  with assms(2) have False by fastforce
  then show "(DbSyncHash st \<noteq> DbSyncHash st0 \<longrightarrow>
              jd \<and> (Get KJob jk, None) \<in> set (xs @ before))
           \<and> (DeploymentHash st \<noteq> DeploymentHash st0 \<longrightarrow>
                (\<exists>pre n'. before = pre @ [(Update KDeployment n', None)]))" ..
qed

lemma justified_dbsync:
  assumes "jd" and "DeploymentHash st1 = DeploymentHash st0"
    and "\<forall>y\<in>set C. \<not> is_StatusUpdate (fst y)"
  shows "justified jk st0 jd ([(Get KJob jk, None), (StatusUpdate n1 st1, e)] @ C)"
proof (rule justified_append_quiet [OF _ assms(3)])
  show "justified jk st0 jd [(Get KJob jk, None), (StatusUpdate n1 st1, e)]"
    unfolding justified_def using assms(1,2)
    by (auto simp: append_eq_Cons_conv Cons_eq_append_conv)
qed

lemma justified_deployment:
  assumes "justified jk st0 jd xs"
    and "DbSyncHash st1 \<noteq> DbSyncHash st0 \<longrightarrow> jd \<and> (Get KJob jk, None) \<in> set xs"
  shows "justified jk st0 jd
           (xs @ [(Get KDeployment k, None), (Update KDeployment n', None),
                  (StatusUpdate n1 (st1\<lparr>DeploymentHash := dh\<rparr>), e)])"
proof (rule justified_append [OF assms(1)])
  fix before n st out after
  assume "[(Get KDeployment k, None), (Update KDeployment n', None),
           (StatusUpdate n1 (st1\<lparr>DeploymentHash := dh\<rparr>), e)]
          = before @ (StatusUpdate n st, out) # after"
  then have "before = [(Get KDeployment k, None), (Update KDeployment n', None)]"
    and "st = st1\<lparr>DeploymentHash := dh\<rparr>"
    by (auto simp: append_eq_Cons_conv Cons_eq_append_conv)
  with assms(2) show "(DbSyncHash st \<noteq> DbSyncHash st0 \<longrightarrow>
              jd \<and> (Get KJob jk, None) \<in> set (xs @ before))
           \<and> (DeploymentHash st \<noteq> DeploymentHash st0 \<longrightarrow>
                (\<exists>pre n'. before = pre @ [(Update KDeployment n', None)]))"
    by auto
qed

lemma StatusUpdate_kind: "is_StatusUpdate c \<Longrightarrow> call_kind c = KGlanceAPI"
  by (cases c) simp_all

lemma calls_in_quiet:
  assumes "calls_in K s s'" and "KGlanceAPI \<notin> K"
  shows "\<exists>cs. calls s' = calls s @ cs \<and> (\<forall>y\<in>set cs. \<not> is_StatusUpdate (fst y))"
proof -
  from assms(1) obtain cs where cs: "calls s' = calls s @ cs"
    "\<forall>x\<in>set cs. call_kind (fst x) \<in> K"
    unfolding calls_in_def by blast
  from cs(2) assms(2) have "\<forall>y\<in>set cs. \<not> is_StatusUpdate (fst y)"
    using StatusUpdate_kind by metis
  with cs(1) show ?thesis by blast
qed

lemma footprint_quiet:
  assumes "footprint K s s'" and "KGlanceAPI \<notin> K"
  shows "\<exists>cs. calls s' = calls s @ cs \<and> (\<forall>y\<in>set cs. \<not> is_StatusUpdate (fst y))"
  using assms calls_in_quiet unfolding footprint_def by blast

lemma quiet_trans:
  assumes "\<exists>cs. calls s' = calls s @ cs \<and> (\<forall>y\<in>set cs. \<not> is_StatusUpdate (fst y))"
    and "\<exists>cs. calls s'' = calls s' @ cs \<and> (\<forall>y\<in>set cs. \<not> is_StatusUpdate (fst y))"
  shows "\<exists>cs. calls s'' = calls s @ cs \<and> (\<forall>y\<in>set cs. \<not> is_StatusUpdate (fst y))"
proof -
  from assms obtain cs cs' where "calls s' = calls s @ cs" "calls s'' = calls s' @ cs'"
    "\<forall>y\<in>set cs. \<not> is_StatusUpdate (fst y)" "\<forall>y\<in>set cs'. \<not> is_StatusUpdate (fst y)"
    by blast
  then have "calls s'' = calls s @ (cs @ cs') \<and> (\<forall>y\<in>set (cs @ cs'). \<not> is_StatusUpdate (fst y))"
    by auto
  then show ?thesis by blast
qed

lemma reconcileDbSync_cases:
  assumes "reconcileDbSync env inst s = (r, s')"
  obtains
    (quiet) "calls_in {KJob} s s'" "\<And>inst'. r = Continue inst' \<Longrightarrow> inst' = inst"
  | (written) h e s2 j where
      "ObjectHash_Job env (glance_DbSyncJob env inst) = Inr h"
      "h \<noteq> DbSyncHash (Status inst)"
      "jobs s (key (glance_DbSyncJob env inst)) = Some j" "jobStatus j = JobCompleted"
      "calls s2 = calls s @
         [(Get KJob (key (glance_DbSyncJob env inst)), None),
          (StatusUpdate (key inst) ((Status inst)\<lparr>DbSyncHash := h\<rparr>), e)]"
      "calls_in {KJob} s2 s'"
      "\<And>inst'. r = Continue inst'
         \<Longrightarrow> inst' = inst\<lparr>Status := (Status inst)\<lparr>DbSyncHash := h\<rparr>\<rparr>"
  using reconcileDbSync_shape [OF assms] by (elim disjE conjE exE) blast+

lemma reconcileDeployment_cases:
  assumes "reconcileDeployment env inst cm s = (r, s')"
  obtains
    (quiet) "calls_in {KDeployment} s s'"
  | (written) k n' e dh where
      "calls s' = calls s @
         [(Get KDeployment k, None), (Update KDeployment n', None),
          (StatusUpdate (key inst) ((Status inst)\<lparr>DeploymentHash := dh\<rparr>), e)]"
  using reconcileDeployment_shape [OF assms] by (elim disjE conjE exE) blast+

lemma through_dbsync:
  assumes "calls t4 = calls s @ P" and "\<forall>y\<in>set P. \<not> is_StatusUpdate (fst y)"
    and "jobs t4 = jobs s"
    and "reconcileDbSync env inst t4 = (r5, t5)"
    and "jk = key (glance_DbSyncJob env inst)"
    and "jd = (\<exists>j. jobs s jk = Some j \<and> jobStatus j = JobCompleted)"
  shows "\<exists>cs. calls t5 = calls s @ cs \<and> justified jk (Status inst) jd cs
           \<and> (\<forall>inst'. r5 = Continue inst' \<longrightarrow>
                 DeploymentHash (Status inst') = DeploymentHash (Status inst)
                 \<and> (DbSyncHash (Status inst') \<noteq> DbSyncHash (Status inst) \<longrightarrow>
                       jd \<and> (Get KJob jk, None) \<in> set cs))"
  using assms(4)
proof (cases rule: reconcileDbSync_cases)
  case quiet
  from calls_in_quiet [OF quiet(1)]
  obtain C where C: "calls t5 = calls t4 @ C" "\<forall>y\<in>set C. \<not> is_StatusUpdate (fst y)"
    by auto
  have "calls t5 = calls s @ (P @ C)"
    using assms(1) C(1) by simp
  moreover have "justified jk (Status inst) jd (P @ C)"
    using assms(2) C(2) by (intro justified_quiet) auto
  moreover have "\<forall>inst'. r5 = Continue inst' \<longrightarrow> inst' = inst"
    using quiet(2) by blast
  ultimately show ?thesis
    by (intro exI [of _ "P @ C"]) simp
next
  case (written h e s2 j)
  from calls_in_quiet [OF written(6)]
  obtain C where C: "calls t5 = calls s2 @ C" "\<forall>y\<in>set C. \<not> is_StatusUpdate (fst y)"
    by auto
  have jd: jd
    using written(3,4) assms(3,5,6) by simp
  let ?cs5 = "[(Get KJob jk, None),
               (StatusUpdate (key inst) ((Status inst)\<lparr>DbSyncHash := h\<rparr>), e)] @ C"
  have "justified jk (Status inst) jd ?cs5"
    using jd C(2) by (intro justified_dbsync) simp_all
  with assms(2) have "justified jk (Status inst) jd (P @ ?cs5)"
    by (rule justified_prepend_quiet)
  moreover have "calls t5 = calls s @ (P @ ?cs5)"
    using assms(1,5) written(5) C(1) by simp
  moreover have "(Get KJob jk, None) \<in> set (P @ ?cs5)"
    by simp
  moreover have "\<forall>inst'. r5 = Continue inst' \<longrightarrow>
      DeploymentHash (Status inst') = DeploymentHash (Status inst)"
    using written(7) by auto
  ultimately show ?thesis
    using jd by (intro exI [of _ "P @ ?cs5"]) blast
qed

lemma through_deployment:
  assumes "calls t5 = calls s @ cs" and "justified jk st0 jd cs"
    and "DeploymentHash (Status inst') = DeploymentHash st0"
    and "DbSyncHash (Status inst') \<noteq> DbSyncHash st0 \<longrightarrow> jd \<and> (Get KJob jk, None) \<in> set cs"
    and "reconcileDeployment env inst' cm t5 = (r6, s')"
  shows "\<exists>cs'. calls s' = calls s @ cs' \<and> justified jk st0 jd cs'"
  using assms(5)
proof (cases rule: reconcileDeployment_cases)
  case quiet
  from calls_in_quiet [OF quiet]
  obtain C where C: "calls s' = calls t5 @ C" "\<forall>y\<in>set C. \<not> is_StatusUpdate (fst y)"
    by auto
  have "calls s' = calls s @ (cs @ C)"
    using assms(1) C(1) by simp
  moreover have "justified jk st0 jd (cs @ C)"
    using assms(2) C(2) by (rule justified_append_quiet)
  ultimately show ?thesis by blast
next
  case (written k n' e dh)
  then have "calls s' = calls s @ (cs @
            [(Get KDeployment k, None), (Update KDeployment n', None),
             (StatusUpdate (key inst') ((Status inst')\<lparr>DeploymentHash := dh\<rparr>), e)])"
    using assms(1) by simp
  moreover have "justified jk st0 jd (cs @
            [(Get KDeployment k, None), (Update KDeployment n', None),
             (StatusUpdate (key inst') ((Status inst')\<lparr>DeploymentHash := dh\<rparr>), e)])"
    using assms(2,4) by (rule justified_deployment)
  ultimately show ?thesis by blast
qed

lemma quiet_justified:
  assumes "\<exists>cs. calls s' = calls s @ cs \<and> (\<forall>y\<in>set cs. \<not> is_StatusUpdate (fst y))"
  shows "\<exists>cs. calls s' = calls s @ cs \<and> justified jk st0 jd cs"
proof -
  from assms obtain cs where "calls s' = calls s @ cs" "\<forall>y\<in>set cs. \<not> is_StatusUpdate (fst y)"
    by blast
  then have "calls s' = calls s @ cs \<and> justified jk st0 jd cs"
    by (simp add: justified_quiet)
  then show ?thesis ..
qed

lemma prefix_phases:
  assumes "reconcilePvc env inst s = (Continue (), s1)"
    and "reconcileService env inst s1 = (Continue (), s2)"
    and "reconcileConfigMap env inst s2 = (Continue cm, s3)"
    and "reconcileSchema env inst s3 = (r4, s4)"
  shows "\<exists>P. calls s4 = calls s @ P \<and> (\<forall>y\<in>set P. \<not> is_StatusUpdate (fst y))"
    and "jobs s4 = jobs s"
proof -
  note f1 = reconcilePvc_footprint [OF assms(1)]
    and f2 = reconcileService_footprint [OF assms(2)]
    and f3 = reconcileConfigMap_footprint [OF assms(3)]
    and f4 = reconcileSchema_footprint [OF assms(4)]
  have q1: "\<exists>cs. calls s1 = calls s @ cs \<and> (\<forall>y\<in>set cs. \<not> is_StatusUpdate (fst y))"
    by (rule footprint_quiet [OF f1]) simp
  have q2: "\<exists>cs. calls s2 = calls s1 @ cs \<and> (\<forall>y\<in>set cs. \<not> is_StatusUpdate (fst y))"
    by (rule footprint_quiet [OF f2]) simp
  have q3: "\<exists>cs. calls s3 = calls s2 @ cs \<and> (\<forall>y\<in>set cs. \<not> is_StatusUpdate (fst y))"
    by (rule footprint_quiet [OF f3]) simp
  have q4: "\<exists>cs. calls s4 = calls s3 @ cs \<and> (\<forall>y\<in>set cs. \<not> is_StatusUpdate (fst y))"
    by (rule footprint_quiet [OF f4]) simp
  show "\<exists>P. calls s4 = calls s @ P \<and> (\<forall>y\<in>set P. \<not> is_StatusUpdate (fst y))"
    by (rule quiet_trans [OF quiet_trans [OF quiet_trans [OF q1 q2] q3] q4])
  have "jobs s1 = jobs s" "jobs s2 = jobs s1" "jobs s3 = jobs s2" "jobs s4 = jobs s3"
    using f1 f2 f3 f4 by (simp_all add: footprint_def frame_def)
  then show "jobs s4 = jobs s" by simp
qed

lemma reconcileInstance_justified:
  assumes "reconcileInstance env inst s = (r, s')"
    and "jk = key (glance_DbSyncJob env inst)"
    and "jd = (\<exists>j. jobs s jk = Some j \<and> jobStatus j = JobCompleted)"
  shows "\<exists>cs. calls s' = calls s @ cs \<and> justified jk (Status inst) jd cs"
  using assms(1)
proof (cases rule: reconcileInstance_cases)
  case (pvc res err)
  have "\<exists>cs. calls s' = calls s @ cs \<and> (\<forall>y\<in>set cs. \<not> is_StatusUpdate (fst y))"
    by (rule footprint_quiet [OF reconcilePvc_footprint [OF pvc(1)]]) simp
  then show ?thesis by (rule quiet_justified)
next
  case (service s1 res err)
  have "\<exists>cs. calls s1 = calls s @ cs \<and> (\<forall>y\<in>set cs. \<not> is_StatusUpdate (fst y))"
    by (rule footprint_quiet [OF reconcilePvc_footprint [OF service(1)]]) simp
  moreover have "\<exists>cs. calls s' = calls s1 @ cs \<and> (\<forall>y\<in>set cs. \<not> is_StatusUpdate (fst y))"
    by (rule footprint_quiet [OF reconcileService_footprint [OF service(2)]]) simp
  ultimately have "\<exists>cs. calls s' = calls s @ cs \<and> (\<forall>y\<in>set cs. \<not> is_StatusUpdate (fst y))"
    by (rule quiet_trans)
  then show ?thesis by (rule quiet_justified)
next
  case (configmap s1 s2 res err)
  have "\<exists>cs. calls s1 = calls s @ cs \<and> (\<forall>y\<in>set cs. \<not> is_StatusUpdate (fst y))"
    by (rule footprint_quiet [OF reconcilePvc_footprint [OF configmap(1)]]) simp
  moreover have "\<exists>cs. calls s2 = calls s1 @ cs \<and> (\<forall>y\<in>set cs. \<not> is_StatusUpdate (fst y))"
    by (rule footprint_quiet [OF reconcileService_footprint [OF configmap(2)]]) simp
  ultimately have "\<exists>cs. calls s2 = calls s @ cs \<and> (\<forall>y\<in>set cs. \<not> is_StatusUpdate (fst y))"
    by (rule quiet_trans)
  moreover have "\<exists>cs. calls s' = calls s2 @ cs \<and> (\<forall>y\<in>set cs. \<not> is_StatusUpdate (fst y))"
    by (rule footprint_quiet [OF reconcileConfigMap_footprint [OF configmap(3)]]) simp
  ultimately have "\<exists>cs. calls s' = calls s @ cs \<and> (\<forall>y\<in>set cs. \<not> is_StatusUpdate (fst y))"
    by (rule quiet_trans)
  then show ?thesis by (rule quiet_justified)
next
  case (schema s1 s2 cm s3 res err)
  from prefix_phases(1) [OF schema(1-4)] show ?thesis by (rule quiet_justified)
next
  case (dbsync s1 s2 cm s3 s4 res err)
  from prefix_phases [OF dbsync(1-4)]
  obtain P where P: "calls s4 = calls s @ P" "\<forall>y\<in>set P. \<not> is_StatusUpdate (fst y)"
    and j: "jobs s4 = jobs s"
    by blast
  from through_dbsync [OF P j dbsync(5) assms(2,3)] show ?thesis
    by blast
next
  case (deployment s1 s2 cm s3 s4 inst' s5 res err)
  from prefix_phases [OF deployment(1-4)]
  obtain P where P: "calls s4 = calls s @ P" "\<forall>y\<in>set P. \<not> is_StatusUpdate (fst y)"
    and j: "jobs s4 = jobs s"
    by blast
  from through_dbsync [OF P j deployment(5) assms(2,3)]
  obtain cs where cs: "calls s5 = calls s @ cs" "justified jk (Status inst) jd cs"
    "DeploymentHash (Status inst') = DeploymentHash (Status inst)"
    "DbSyncHash (Status inst') \<noteq> DbSyncHash (Status inst) \<longrightarrow>
       jd \<and> (Get KJob jk, None) \<in> set cs"
    by blast
  from through_deployment [OF cs deployment(6)] show ?thesis .
next
  case (finished s1 s2 cm s3 s4 inst' s5)
  from prefix_phases [OF finished(1-4)]
  obtain P where P: "calls s4 = calls s @ P" "\<forall>y\<in>set P. \<not> is_StatusUpdate (fst y)"
    and j: "jobs s4 = jobs s"
    by blast
  from through_dbsync [OF P j finished(5) assms(2,3)]
  obtain cs where cs: "calls s5 = calls s @ cs" "justified jk (Status inst) jd cs"
    "DeploymentHash (Status inst') = DeploymentHash (Status inst)"
    "DbSyncHash (Status inst') \<noteq> DbSyncHash (Status inst) \<longrightarrow>
       jd \<and> (Get KJob jk, None) \<in> set cs"
    by blast
  from through_deployment [OF cs finished(6)] show ?thesis .
qed

lemma wf_convergedStore: "wf_store convergedStore"
  by (simp add: wf_store_def example_defs key_def)

subsection \<open>The run from a fresh Specification\<close>

text \<open>
  The stores of the scenario, field by field. The log of calls is left out: it grows
  with every pass and no pass reads it.
\<close>

lemma afterPass1_fields:
  "glanceapis afterPass1 = [exRequest \<mapsto> exInstance]"
  "pvcs afterPass1 = [exRequest \<mapsto> glance_Pvc exTemplates exInstance]"
  "services afterPass1 = Map.empty" "configmaps afterPass1 = Map.empty"
  "schemas afterPass1 = Map.empty" "jobs afterPass1 = Map.empty"
  "deployments afterPass1 = Map.empty" "faults afterPass1 = []"
  by (simp_all add: afterPass1_def reconcile_defs client_defs example_defs)

lemma afterPass2_fields:
  "glanceapis afterPass2 = [exRequest \<mapsto> exInstance]"
  "pvcs afterPass2 = [exRequest \<mapsto> glance_Pvc exTemplates exInstance]"
  "services afterPass2 = [exRequest \<mapsto> glance_Service exTemplates exInstance]"
  "configmaps afterPass2 = Map.empty"
  "schemas afterPass2 = Map.empty" "jobs afterPass2 = Map.empty"
  "deployments afterPass2 = Map.empty" "faults afterPass2 = []"
  by (simp_all add: afterPass2_def afterPass1_fields reconcile_defs client_defs example_defs)

lemma afterPass3_fields:
  "glanceapis afterPass3 = [exRequest \<mapsto> exInstance]"
  "pvcs afterPass3 = [exRequest \<mapsto> glance_Pvc exTemplates exInstance]"
  "services afterPass3 = [exRequest \<mapsto> glance_Service exTemplates exInstance]"
  "configmaps afterPass3 = [exRequest \<mapsto> glance_ConfigMap exTemplates exInstance]"
  "schemas afterPass3 = [exRequest \<mapsto> \<lparr>Name = ''glance'', Namespace = ''openstack'',
      statusCompleted = FieldMissing\<rparr>]"
  "jobs afterPass3 = [exJobKey \<mapsto> glance_DbSyncJob exTemplates exInstance]"
  "deployments afterPass3 = Map.empty" "faults afterPass3 = []"
  by (simp_all add: afterPass3_def afterPass2_fields reconcile_defs client_defs example_defs)

lemma gateReady_fields:
  "glanceapis gateReady = [exRequest \<mapsto> exInstance]"
  "pvcs gateReady = [exRequest \<mapsto> glance_Pvc exTemplates exInstance]"
  "services gateReady = [exRequest \<mapsto> glance_Service exTemplates exInstance]"
  "configmaps gateReady = [exRequest \<mapsto> glance_ConfigMap exTemplates exInstance]"
  "schemas gateReady = [exRequest \<mapsto> \<lparr>Name = ''glance'', Namespace = ''openstack'',
      statusCompleted = FieldBool True\<rparr>]"
  "jobs gateReady = [exJobKey \<mapsto> glance_DbSyncJob exTemplates exInstance]"
  "deployments gateReady = Map.empty" "faults gateReady = []"
  by (simp_all add: gateReady_def afterPass3_fields)

lemma afterPass4_fields:
  "glanceapis afterPass4 = glanceapis gateReady" "pvcs afterPass4 = pvcs gateReady"
  "services afterPass4 = services gateReady" "configmaps afterPass4 = configmaps gateReady"
  "schemas afterPass4 = schemas gateReady" "jobs afterPass4 = jobs gateReady"
  "deployments afterPass4 = Map.empty" "faults afterPass4 = []"
  by (simp_all add: afterPass4_def gateReady_fields reconcile_defs client_defs example_defs)

lemma jobSucceeded_fields:
  "glanceapis jobSucceeded = [exRequest \<mapsto> exInstance]"
  "pvcs jobSucceeded = [exRequest \<mapsto> glance_Pvc exTemplates exInstance]"
  "services jobSucceeded = [exRequest \<mapsto> glance_Service exTemplates exInstance]"
  "configmaps jobSucceeded = [exRequest \<mapsto> glance_ConfigMap exTemplates exInstance]"
  "schemas jobSucceeded = [exRequest \<mapsto> \<lparr>Name = ''glance'', Namespace = ''openstack'',
      statusCompleted = FieldBool True\<rparr>]"
  "jobs jobSucceeded = [exJobKey \<mapsto> \<lparr>Name = ''glance-db-sync'', Namespace = ''openstack'',
      jobSpec = ''db_sync'', jobStatus = JobCompleted\<rparr>]"
  "deployments jobSucceeded = Map.empty" "faults jobSucceeded = []"
  by (simp_all add: jobSucceeded_def afterPass4_fields gateReady_fields)

lemma afterPass5_fields:
  "glanceapis afterPass5 = [exRequest \<mapsto>
      exInstance\<lparr>Status := \<lparr>DbSyncHash = ''#db_sync'', DeploymentHash = []\<rparr>\<rparr>]"
  "pvcs afterPass5 = [exRequest \<mapsto> glance_Pvc exTemplates exInstance]"
  "services afterPass5 = [exRequest \<mapsto> glance_Service exTemplates exInstance]"
  "configmaps afterPass5 = [exRequest \<mapsto> glance_ConfigMap exTemplates exInstance]"
  "schemas afterPass5 = [exRequest \<mapsto> \<lparr>Name = ''glance'', Namespace = ''openstack'',
      statusCompleted = FieldBool True\<rparr>]"
  "jobs afterPass5 = Map.empty"
  "deployments afterPass5 = [exRequest \<mapsto> glance_Deployment exTemplates exInstance ''#cm'']"
  "faults afterPass5 = []"
  by (simp_all add: afterPass5_def jobSucceeded_fields reconcile_defs client_defs example_defs)

lemma replicasReady_fields:
  "glanceapis replicasReady = glanceapis afterPass5" "pvcs replicasReady = pvcs afterPass5"
  "services replicasReady = services afterPass5"
  "configmaps replicasReady = configmaps afterPass5"
  "schemas replicasReady = schemas afterPass5" "jobs replicasReady = Map.empty"
  "deployments replicasReady = [exRequest \<mapsto> \<lparr>Name = ''glance'', Namespace = ''openstack'',
      deploymentSpec = ''config=#cm'', deploymentStatus = \<lparr>ReadyReplicas = 1\<rparr>\<rparr>]"
  "faults replicasReady = []"
  by (simp_all add: replicasReady_def afterPass5_fields)

lemma afterPass6_fields:
  "glanceapis afterPass6 = [exRequest \<mapsto> convergedInstance]"
  "pvcs afterPass6 = pvcs afterPass5" "services afterPass6 = services afterPass5"
  "configmaps afterPass6 = configmaps afterPass5" "schemas afterPass6 = schemas afterPass5"
  "jobs afterPass6 = Map.empty"
  "deployments afterPass6 = deployments replicasReady" "faults afterPass6 = []"
  by (simp_all add: afterPass6_def replicasReady_fields afterPass5_fields reconcile_defs
      client_defs example_defs)

subsection \<open>A pass that creates and updates nothing\<close>

text \<open>
  Without store errors, a block that logs no create or update call has only read, or, in
  the job block, read and deleted the job; it leaves every object but the job as it was,
  and run again on a store with the same objects it does the same.
\<close>

lemma no_create_or_update_simps [simp]:
  "no_create_or_update []"
  "no_create_or_update (x # xs) = (\<not> creates_or_updates (fst x) \<and> no_create_or_update xs)"
  "no_create_or_update (xs @ ys) = (no_create_or_update xs \<and> no_create_or_update ys)"
  by (auto simp: no_create_or_update_def)

lemma unwritten_refl: "unwritten s s"
  by (simp add: unwritten_def)

lemma unwritten_trans: "unwritten s s' \<Longrightarrow> unwritten s' s'' \<Longrightarrow> unwritten s s''"
  unfolding unwritten_def by (metis append.assoc no_create_or_update_simps(3))

lemma unwritten_record [simp]:
  "unwritten s (record_call c out s) = (\<not> creates_or_updates c)"
  by (simp add: unwritten_def)

lemma footprint_ext: "footprint K s s' \<Longrightarrow> \<exists>cs. calls s' = calls s @ cs"
  unfolding footprint_def calls_in_def by blast

lemmas block_defs = IsNotFound_def Let_def injected_def client_get_def client_write_def
  exists_error_def missing_error_def update_error_def stored_ConfigMap_def

lemma reconcilePvc_replay:
  assumes "reconcilePvc env inst s = (out, s')" and "faults s = []" and "unwritten s s'"
  shows "out = Continue ()" and "frame {} s s'"
    and "\<And>t. faults t = [] \<Longrightarrow> pvcs t = pvcs s \<Longrightarrow>
           \<exists>t'. reconcilePvc env inst t = (Continue (), t') \<and> frame {} t t' \<and> unwritten t t'"
  using assms
  by (auto simp: reconcilePvc_def Get_Pvc_def Create_Pvc_def block_defs frame_def unwritten_def
      split: phase_splits)

lemma reconcileService_replay:
  assumes "reconcileService env inst s = (out, s')" and "faults s = []" and "unwritten s s'"
  shows "out = Continue ()" and "frame {} s s'"
    and "\<And>t. faults t = [] \<Longrightarrow> services t = services s \<Longrightarrow>
           \<exists>t'. reconcileService env inst t = (Continue (), t') \<and> frame {} t t' \<and> unwritten t t'"
  using assms
  by (auto simp: reconcileService_def Get_Service_def Create_Service_def block_defs frame_def
        unwritten_def
      split: phase_splits)

lemma reconcileConfigMap_replay:
  assumes "reconcileConfigMap env inst s = (out, s')" and "faults s = []" and "unwritten s s'"
  shows "out = Continue (glance_ConfigMap env inst)" and "frame {} s s'"
    and "\<And>t. faults t = [] \<Longrightarrow> configmaps t = configmaps s \<Longrightarrow>
           \<exists>t'. reconcileConfigMap env inst t = (Continue (glance_ConfigMap env inst), t')
                \<and> frame {} t t' \<and> unwritten t t'"
  using assms
  by (auto simp: reconcileConfigMap_def updateConfigMap_def Get_ConfigMap_def Create_ConfigMap_def
        Update_ConfigMap_def block_defs frame_def unwritten_def
      split: phase_splits)

lemma reconcileSchema_replay:
  assumes "reconcileSchema env inst s = (out, s')" and "faults s = []" and "unwritten s s'"
  shows "frame {} s s'"
    and "\<And>t. faults t = [] \<Longrightarrow> schemas t = schemas s \<Longrightarrow>
           \<exists>t'. reconcileSchema env inst t = (out, t') \<and> frame {} t t' \<and> unwritten t t'"
  using assms
  by (auto simp: reconcileSchema_def Get_Schema_def Create_Schema_def block_defs frame_def
        unwritten_def
      split: phase_splits)

lemma reconcileDeployment_replay:
  assumes "reconcileDeployment env inst cm s = (out, s')" and "faults s = []"
    and "unwritten s s'"
  shows "frame {} s s'"
    and "\<And>t. faults t = [] \<Longrightarrow> deployments t = deployments s \<Longrightarrow>
           \<exists>t'. reconcileDeployment env inst cm t = (out, t') \<and> frame {} t t' \<and> unwritten t t'"
  using assms
  by (auto simp: reconcileDeployment_def syncDeployment_def setDeploymentHash_def
        Get_Deployment_def Create_Deployment_def Update_Deployment_def Status_Update_def
        block_defs frame_def unwritten_def
      split: phase_splits)


lemma EnsureJob_replay:
  assumes "EnsureJob job s = (r, s')" and "faults s = []" and "unwritten s s'"
  shows "frame {} s s'"
    and "\<And>t. faults t = [] \<Longrightarrow> jobs t = jobs s \<Longrightarrow>
           \<exists>t'. EnsureJob job t = (r, t') \<and> frame {} t t' \<and> unwritten t t'"
  using assms
  by (auto simp: EnsureJob_def Get_Job_def Create_Job_def block_defs frame_def unwritten_def
      split: phase_splits JobState.splits)

lemma DeleteJob_replay:
  assumes "DeleteJob job s = ((rq, err), s')" and "faults s = []"
  shows "frame {KJob} s s'" and "unwritten s s'"
    and "\<And>t. faults t = [] \<Longrightarrow> jobs t = jobs s' \<Longrightarrow>
           \<exists>rq' err' t'. DeleteJob job t = ((rq', err'), t') \<and> frame {KJob} t t'
              \<and> unwritten t t' \<and> (err' = None \<longrightarrow> err = None)"
  using assms
  by (auto simp: DeleteJob_def Get_Job_def Delete_Job_def block_defs frame_def unwritten_def
      split: phase_splits)

lemma setDbSyncHash_writes:
  assumes "setDbSyncHash inst h s = (r, s')" and "h \<noteq> DbSyncHash (Status inst)"
  shows "\<exists>st out. calls s' = calls s @ [(StatusUpdate (key inst) st, out)]"
  using assms
  by (auto simp: setDbSyncHash_def Status_Update_def block_defs split: phase_splits)

lemma reconcileDbSync_recorded:
  assumes "ObjectHash_Job env (glance_DbSyncJob env inst) = Inr (DbSyncHash (Status inst))"
  shows "reconcileDbSync env inst s =
           (case DeleteJob (glance_DbSyncJob env inst) s of
              ((requeue, Some err), s') \<Rightarrow> (Return emptyResult (Some err), s')
            | ((requeue, None), s') \<Rightarrow> (Continue inst, s'))"
  using assms
  by (simp add: reconcileDbSync_def runDbSync_def setDbSyncHash_def Let_def
      split: prod.splits option.splits)

lemma reconcileDbSync_unrecorded:
  assumes "ObjectHash_Job env (glance_DbSyncJob env inst) = Inr h"
    and "h \<noteq> DbSyncHash (Status inst)"
  shows "reconcileDbSync env inst s =
           (case EnsureJob (glance_DbSyncJob env inst) s of
              ((requeue, Some err), s1) \<Rightarrow> (Return emptyResult (Some err), s1)
            | ((requeue, None), s1) \<Rightarrow>
                if requeue then (Return (requeueAfter (Second * 5)) None, s1)
                else (case setDbSyncHash inst h s1 of
                        ((Some err, inst'), s2) \<Rightarrow> (Return emptyResult (Some err), s2)
                      | ((None, inst'), s2) \<Rightarrow>
                          (case DeleteJob (glance_DbSyncJob env inst) s2 of
                             ((requeue, Some err), s3) \<Rightarrow> (Return emptyResult (Some err), s3)
                           | ((requeue, None), s3) \<Rightarrow> (Continue inst', s3))))"
  using assms
  by (simp add: reconcileDbSync_def runDbSync_def Let_def
      split: prod.splits option.splits flow.splits)

lemma reconcileDbSync_replay:
  assumes run: "reconcileDbSync env inst s = (out, s')" and f: "faults s = []"
    and u: "unwritten s s'"
  shows "frame {KJob} s s'"
    and "\<And>inst'. out = Continue inst' \<Longrightarrow> inst' = inst"
    and "\<And>t. faults t = [] \<Longrightarrow> jobs t = jobs s' \<Longrightarrow>
           \<exists>out' t'. reconcileDbSync env inst t = (out', t') \<and> frame {KJob} t t' \<and> unwritten t t'
              \<and> (\<forall>inst'. out' = Continue inst' \<longrightarrow> inst' = inst \<and> out = Continue inst)"
proof -
  let ?job = "glance_DbSyncJob env inst"
  have "frame {KJob} s s' \<and> (\<forall>inst'. out = Continue inst' \<longrightarrow> inst' = inst)
      \<and> (\<forall>t. faults t = [] \<longrightarrow> jobs t = jobs s' \<longrightarrow>
           (\<exists>out' t'. reconcileDbSync env inst t = (out', t') \<and> frame {KJob} t t'
              \<and> unwritten t t'
              \<and> (\<forall>inst'. out' = Continue inst' \<longrightarrow> inst' = inst \<and> out = Continue inst)))"
  proof (cases "ObjectHash_Job env ?job")
    case (Inl err)
    then have "\<And>x. reconcileDbSync env inst x
        = (Return emptyResult (Some (Errorf ''error calculating DB sync hash: '' err)), x)"
      by (simp add: reconcileDbSync_def Let_def)
    with run show ?thesis
      by (auto simp: frame_def unwritten_refl)
  next
    case (Inr h)
    show ?thesis
    proof (cases "h = DbSyncHash (Status inst)")
      case True
      note eq = reconcileDbSync_recorded [OF Inr [unfolded True]]
      obtain rq err d where del: "DeleteJob ?job s = ((rq, err), d)"
        by (metis prod.exhaust)
      from run del have s': "s' = d"
        and out: "out = (case err of Some e \<Rightarrow> Return emptyResult (Some e) | None \<Rightarrow> Continue inst)"
        by (auto simp: eq split: option.splits)
      note D = DeleteJob_replay [OF del f]
      have "\<exists>out' t'. reconcileDbSync env inst t = (out', t') \<and> frame {KJob} t t'
              \<and> unwritten t t'
              \<and> (\<forall>inst'. out' = Continue inst' \<longrightarrow> inst' = inst \<and> out = Continue inst)"
        if "faults t = []" "jobs t = jobs s'" for t
      proof -
        from D(3) [of t] that s' obtain rq' err' t' where
          d': "DeleteJob ?job t = ((rq', err'), t')" "frame {KJob} t t'" "unwritten t t'"
          "err' = None \<longrightarrow> err = None"
          by blast
        have "reconcileDbSync env inst t =
            ((case err' of Some e \<Rightarrow> Return emptyResult (Some e) | None \<Rightarrow> Continue inst), t')"
          using d'(1) by (simp add: eq split: option.splits)
        with d'(2,3,4) out show ?thesis
          by (auto split: option.splits)
      qed
      with D(1) s' out show ?thesis
        by (auto split: option.splits)
    next
      case False
      note eq = reconcileDbSync_unrecorded [OF Inr False]
      obtain rq err s1 where ens: "EnsureJob ?job s = ((rq, err), s1)"
        by (metis prod.exhaust)
      from EnsureJob_footprint [OF ens] obtain c1 where c1: "calls s1 = calls s @ c1"
        by (blast dest: footprint_ext)
      have nc: "\<not> (err = None \<and> \<not> rq)"
      proof
        assume a: "err = None \<and> \<not> rq"
        obtain e i2 s2 where set: "setDbSyncHash inst h s1 = ((e, i2), s2)"
          by (metis prod.exhaust)
        from setDbSyncHash_writes [OF set False] obtain st o2 where
          c2: "calls s2 = calls s1 @ [(StatusUpdate (key inst) st, o2)]"
          by blast
        have "\<exists>c3. calls s' = calls s2 @ c3"
        proof (cases e)
          case None
          obtain rq3 e3 s3 where del: "DeleteJob ?job s2 = ((rq3, e3), s3)"
            by (metis prod.exhaust)
          with run ens a set None have "s' = s3"
            by (auto simp: eq split: option.splits)
          with DeleteJob_footprint [OF del] show ?thesis
            by (blast dest: footprint_ext)
        next
          case (Some b)
          with run ens a set have "s' = s2"
            by (auto simp: eq)
          then show ?thesis by simp
        qed
        then obtain c3 where "calls s' = calls s @ c1 @ [(StatusUpdate (key inst) st, o2)] @ c3"
          using c1 c2 by auto
        with u show False
          by (auto simp: unwritten_def)
      qed
      have ret: "s' = s1 \<and> (\<forall>inst'. out \<noteq> Continue inst')
          \<and> out = (case err of Some e \<Rightarrow> Return emptyResult (Some e)
                    | None \<Rightarrow> Return (requeueAfter (Second * 5)) None)"
        using nc run ens by (auto simp: eq split: option.splits)
      with u have u1: "unwritten s s1" by simp
      note E = EnsureJob_replay [OF ens f u1]
      have "\<exists>out' t'. reconcileDbSync env inst t = (out', t') \<and> frame {KJob} t t'
              \<and> unwritten t t'
              \<and> (\<forall>inst'. out' = Continue inst' \<longrightarrow> inst' = inst \<and> out = Continue inst)"
        if "faults t = []" "jobs t = jobs s'" for t
      proof -
        have "jobs t = jobs s"
          using that(2) ret E(1) by (simp add: frame_def)
        from E(2) [OF that(1) this] obtain t' where
          e': "EnsureJob ?job t = ((rq, err), t')" "frame {} t t'" "unwritten t t'"
          by blast
        have "reconcileDbSync env inst t = (out, t')"
          using e'(1) nc ret by (auto simp: eq split: option.splits)
        with e'(2,3) ret show ?thesis
          by (auto simp: frame_def)
      qed
      with E(1) ret show ?thesis
        by (auto simp: frame_def)
    qed
  qed
  then show "frame {KJob} s s'"
    and "\<And>inst'. out = Continue inst' \<Longrightarrow> inst' = inst"
    and "\<And>t. faults t = [] \<Longrightarrow> jobs t = jobs s' \<Longrightarrow>
           \<exists>out' t'. reconcileDbSync env inst t = (out', t') \<and> frame {KJob} t t' \<and> unwritten t t'
              \<and> (\<forall>inst'. out' = Continue inst' \<longrightarrow> inst' = inst \<and> out = Continue inst)"
    by blast+
qed

lemma ext_trans:
  assumes "\<exists>c. calls b = calls a @ c" and "\<exists>c. calls d = calls b @ c"
  shows "\<exists>c. calls d = calls a @ c"
proof -
  from assms obtain x y where "calls b = calls a @ x" "calls d = calls b @ y"
    by blast
  then have "calls d = calls a @ (x @ y)" by simp
  then show ?thesis ..
qed

lemma unwritten_split:
  assumes "unwritten s s'" and "\<exists>c. calls a = calls s @ c" and "\<exists>c. calls s' = calls a @ c"
  shows "unwritten s a" and "unwritten a s'"
proof -
  from assms obtain cs c1 c2 where "calls s' = calls s @ cs" "no_create_or_update cs"
    "calls a = calls s @ c1" "calls s' = calls a @ c2"
    unfolding unwritten_def by blast
  then have "cs = c1 @ c2" by simp
  with \<open>no_create_or_update cs\<close> \<open>calls a = calls s @ c1\<close> \<open>calls s' = calls a @ c2\<close>
  show "unwritten s a" and "unwritten a s'"
    unfolding unwritten_def by auto
qed

lemma prefix_replay:
  assumes p1: "reconcilePvc env inst s = (Continue (), s1)"
    and p2: "reconcileService env inst s1 = (Continue (), s2)"
    and p3: "reconcileConfigMap env inst s2 = (Continue cm, s3)"
    and p4: "reconcileSchema env inst s3 = (r4, s4)"
    and f: "faults s = []"
    and u: "unwritten s s4"
  shows "frame {} s s4" and "unwritten s s4"
    and "\<And>t. faults t = [] \<Longrightarrow> frame {KJob} s t \<Longrightarrow>
           \<exists>t1 t2 t3 t4. reconcilePvc env inst t = (Continue (), t1)
              \<and> reconcileService env inst t1 = (Continue (), t2)
              \<and> reconcileConfigMap env inst t2 = (Continue cm, t3)
              \<and> reconcileSchema env inst t3 = (r4, t4)
              \<and> frame {} t t4 \<and> unwritten t t4"
proof -
  note e1 = footprint_ext [OF reconcilePvc_footprint [OF p1]]
    and e2 = footprint_ext [OF reconcileService_footprint [OF p2]]
    and e3 = footprint_ext [OF reconcileConfigMap_footprint [OF p3]]
    and e4 = footprint_ext [OF reconcileSchema_footprint [OF p4]]
  note e24 = ext_trans [OF e3 e4]
  note e14 = ext_trans [OF e2 e24]
  note u1 = unwritten_split [OF u e1 e14]
  note u2 = unwritten_split [OF u1(2) e2 e24]
  note u3 = unwritten_split [OF u2(2) e3 e4]
  note A = reconcilePvc_replay [OF p1 f u1(1)]
  have f1: "faults s1 = []" using A(2) f by (simp add: frame_def)
  note B = reconcileService_replay [OF p2 f1 u2(1)]
  have f2: "faults s2 = []" using B(2) f1 by (simp add: frame_def)
  note C = reconcileConfigMap_replay [OF p3 f2 u3(1)]
  have f3: "faults s3 = []" using C(2) f2 by (simp add: frame_def)
  note D = reconcileSchema_replay [OF p4 f3 u3(2)]
  have cm: "cm = glance_ConfigMap env inst"
    using C(1) by simp
  show "frame {} s s4"
    using A(2) B(2) C(2) D(1) by (blast intro: frame_trans)
  show "unwritten s s4" by (rule u)
  show "\<exists>t1 t2 t3 t4. reconcilePvc env inst t = (Continue (), t1)
              \<and> reconcileService env inst t1 = (Continue (), t2)
              \<and> reconcileConfigMap env inst t2 = (Continue cm, t3)
              \<and> reconcileSchema env inst t3 = (r4, t4)
              \<and> frame {} t t4 \<and> unwritten t t4"
    if ft: "faults t = []" and fr: "frame {KJob} s t" for t
  proof -
    have "pvcs t = pvcs s" using fr by (simp add: frame_def)
    from A(3) [OF ft this] obtain t1 where
      t1: "reconcilePvc env inst t = (Continue (), t1)" "frame {} t t1" "unwritten t t1"
      by blast
    have ft1: "faults t1 = []" using t1(2) ft by (simp add: frame_def)
    have "services t1 = services s1" using fr t1(2) A(2) by (simp add: frame_def)
    from B(3) [OF ft1 this] obtain t2 where
      t2: "reconcileService env inst t1 = (Continue (), t2)" "frame {} t1 t2" "unwritten t1 t2"
      by blast
    have ft2: "faults t2 = []" using t2(2) ft1 by (simp add: frame_def)
    have "configmaps t2 = configmaps s2" using fr t1(2) t2(2) A(2) B(2) by (simp add: frame_def)
    from C(3) [OF ft2 this] obtain t3 where
      t3: "reconcileConfigMap env inst t2 = (Continue cm, t3)" "frame {} t2 t3" "unwritten t2 t3"
      unfolding cm by blast
    have ft3: "faults t3 = []" using t3(2) ft2 by (simp add: frame_def)
    have "schemas t3 = schemas s3"
      using fr t1(2) t2(2) t3(2) A(2) B(2) C(2) by (simp add: frame_def)
    from D(2) [OF ft3 this] obtain t4 where
      t4: "reconcileSchema env inst t3 = (r4, t4)" "frame {} t3 t4" "unwritten t3 t4"
      by blast
    have "frame {} t t4"
      using t1(2) t2(2) t3(2) t4(2) by (blast intro: frame_trans)
    moreover have "unwritten t t4"
      using t1(3) t2(3) t3(3) t4(3) by (blast intro: unwritten_trans)
    ultimately show ?thesis
      using t1(1) t2(1) t3(1) t4(1) by blast
  qed
qed

lemma reconcileInstance_replay:
  assumes run: "reconcileInstance env inst s = (r, s')" and f: "faults s = []"
    and u: "unwritten s s'"
  shows "frame {KJob} s s'
       \<and> (\<forall>t. faults t = [] \<longrightarrow> frame {KJob} s t \<longrightarrow> jobs t = jobs s' \<longrightarrow>
             unwritten t (snd (reconcileInstance env inst t)))"
  using run
proof (cases rule: reconcileInstance_cases)
  case (pvc res err)
  from reconcilePvc_replay(1) [OF pvc(1) f u] show ?thesis by simp
next
  case (service s1 res err)
  note e1 = footprint_ext [OF reconcilePvc_footprint [OF service(1)]]
    and e2 = footprint_ext [OF reconcileService_footprint [OF service(2)]]
  note u1 = unwritten_split [OF u e1 e2]
  have "faults s1 = []"
    using reconcilePvc_replay(2) [OF service(1) f u1(1)] f by (simp add: frame_def)
  from reconcileService_replay(1) [OF service(2) this u1(2)] show ?thesis by simp
next
  case (configmap s1 s2 res err)
  note e1 = footprint_ext [OF reconcilePvc_footprint [OF configmap(1)]]
    and e2 = footprint_ext [OF reconcileService_footprint [OF configmap(2)]]
    and e3 = footprint_ext [OF reconcileConfigMap_footprint [OF configmap(3)]]
  note e13 = ext_trans [OF e2 e3]
  note u1 = unwritten_split [OF u e1 e13]
  note u2 = unwritten_split [OF u1(2) e2 e3]
  have f1: "faults s1 = []"
    using reconcilePvc_replay(2) [OF configmap(1) f u1(1)] f by (simp add: frame_def)
  have "faults s2 = []"
    using reconcileService_replay(2) [OF configmap(2) f1 u2(1)] f1 by (simp add: frame_def)
  from reconcileConfigMap_replay(1) [OF configmap(3) this u2(2)] show ?thesis by simp
next
  case (schema s1 s2 cm s3 res err)
  note P = prefix_replay [OF schema(1-4) f u]
  have "unwritten t (snd (reconcileInstance env inst t))"
    if "faults t = []" "frame {KJob} s t" for t
  proof -
    from P(3) [OF that] obtain t1 t2 t3 t4 where
      "reconcilePvc env inst t = (Continue (), t1)"
      "reconcileService env inst t1 = (Continue (), t2)"
      "reconcileConfigMap env inst t2 = (Continue cm, t3)"
      "reconcileSchema env inst t3 = (Return res err, t4)" "unwritten t t4"
      by blast
    then show ?thesis
      by (simp add: reconcileInstance_def)
  qed
  with P(1) show ?thesis
    by (simp add: frame_def)
next
  case (dbsync s1 s2 cm s3 s4 res err)
  note e04 = ext_trans [OF footprint_ext [OF reconcilePvc_footprint [OF dbsync(1)]]
       ext_trans [OF footprint_ext [OF reconcileService_footprint [OF dbsync(2)]]
       ext_trans [OF footprint_ext [OF reconcileConfigMap_footprint [OF dbsync(3)]]
         footprint_ext [OF reconcileSchema_footprint [OF dbsync(4)]]]]]
  note e5 = footprint_ext [OF reconcileDbSync_footprint [OF dbsync(5)]]
  note u4 = unwritten_split [OF u e04 e5]
  note P = prefix_replay [OF dbsync(1-4) f u4(1)]
  have f4: "faults s4 = []" using P(1) f by (simp add: frame_def)
  note J = reconcileDbSync_replay [OF dbsync(5) f4 u4(2)]
  have "unwritten t (snd (reconcileInstance env inst t))"
    if "faults t = []" "frame {KJob} s t" "jobs t = jobs s'" for t
  proof -
    from P(3) [OF that(1,2)] obtain t1 t2 t3 t4 where
      t: "reconcilePvc env inst t = (Continue (), t1)"
      "reconcileService env inst t1 = (Continue (), t2)"
      "reconcileConfigMap env inst t2 = (Continue cm, t3)"
      "reconcileSchema env inst t3 = (Continue (), t4)" "frame {} t t4" "unwritten t t4"
      by blast
    have "faults t4 = []" "jobs t4 = jobs s'"
      using t(5) that by (simp_all add: frame_def)
    from J(3) [OF this] obtain out' t5 where
      t5: "reconcileDbSync env inst t4 = (out', t5)" "unwritten t4 t5"
      "\<forall>inst'. out' = Continue inst' \<longrightarrow> inst' = inst \<and> Return res err = Continue inst"
      by blast
    then obtain res' err' where "out' = Return res' err'"
      by (cases out') auto
    with t t5 have "snd (reconcileInstance env inst t) = t5"
      by (simp add: reconcileInstance_def)
    with t(6) t5(2) show ?thesis
      by (auto intro: unwritten_trans)
  qed
  moreover have "frame {KJob} s s'"
    using P(1) J(1) by (simp add: frame_def)
  ultimately show ?thesis by blast
next
  case (deployment s1 s2 cm s3 s4 inst' s5 res err)
  note e04 = ext_trans [OF footprint_ext [OF reconcilePvc_footprint [OF deployment(1)]]
       ext_trans [OF footprint_ext [OF reconcileService_footprint [OF deployment(2)]]
       ext_trans [OF footprint_ext [OF reconcileConfigMap_footprint [OF deployment(3)]]
         footprint_ext [OF reconcileSchema_footprint [OF deployment(4)]]]]]
  note e5 = footprint_ext [OF reconcileDbSync_footprint [OF deployment(5)]]
  note e6 = footprint_ext [OF reconcileDeployment_footprint [OF deployment(6)]]
  note e46 = ext_trans [OF e5 e6]
  note u4 = unwritten_split [OF u e04 e46]
  note u5 = unwritten_split [OF u4(2) e5 e6]
  note P = prefix_replay [OF deployment(1-4) f u4(1)]
  have f4: "faults s4 = []" using P(1) f by (simp add: frame_def)
  note J = reconcileDbSync_replay [OF deployment(5) f4 u5(1)]
  have i: "inst' = inst" using J(2) by simp
  have f5: "faults s5 = []" using J(1) f4 by (simp add: frame_def)
  note D = reconcileDeployment_replay [OF deployment(6) f5 u5(2)]
  have "unwritten t (snd (reconcileInstance env inst t))"
    if "faults t = []" "frame {KJob} s t" "jobs t = jobs s'" for t
  proof -
    from P(3) [OF that(1,2)] obtain t1 t2 t3 t4 where
      t: "reconcilePvc env inst t = (Continue (), t1)"
      "reconcileService env inst t1 = (Continue (), t2)"
      "reconcileConfigMap env inst t2 = (Continue cm, t3)"
      "reconcileSchema env inst t3 = (Continue (), t4)" "frame {} t t4" "unwritten t t4"
      by blast
    have "faults t4 = []" "jobs t4 = jobs s5"
      using t(5) that D(1) by (simp_all add: frame_def)
    from J(3) [OF this] obtain out' t5 where
      t5: "reconcileDbSync env inst t4 = (out', t5)" "frame {KJob} t4 t5" "unwritten t4 t5"
      "\<forall>inst'. out' = Continue inst' \<longrightarrow> inst' = inst"
      by blast
    show ?thesis
    proof (cases out')
      case (Return res' err')
      have "reconcileDbSync env inst t4 = (Return res' err', t5)"
        using t5(1) Return by simp
      then have "snd (reconcileInstance env inst t) = t5"
        by (simp add: reconcileInstance_def t(1-4))
      with t(6) t5(3) show ?thesis
        by (auto intro: unwritten_trans)
    next
      case (Continue i')
      with t5(4) have i': "i' = inst" by simp
      have "faults t5 = []" "deployments t5 = deployments s5"
        using t5(2) t(5) that P(1) J(1) \<open>faults t4 = []\<close> by (simp_all add: frame_def)
      from D(2) [OF this] obtain t6 where
        t6: "reconcileDeployment env inst' cm t5 = (Return res err, t6)" "unwritten t5 t6"
        by blast
      have db: "reconcileDbSync env inst t4 = (Continue inst, t5)"
        using t5(1) Continue i' by simp
      have dp: "reconcileDeployment env inst cm t5 = (Return res err, t6)"
        using t6(1) i by simp
      have "snd (reconcileInstance env inst t) = t6"
        by (simp add: reconcileInstance_def t(1-4) db dp)
      with t(6) t5(3) t6(2) show ?thesis
        by (auto intro: unwritten_trans)
    qed
  qed
  moreover have "frame {KJob} s s'"
    using P(1) J(1) D(1) by (simp add: frame_def)
  ultimately show ?thesis by blast
next
  case (finished s1 s2 cm s3 s4 inst' s5)
  note e04 = ext_trans [OF footprint_ext [OF reconcilePvc_footprint [OF finished(1)]]
       ext_trans [OF footprint_ext [OF reconcileService_footprint [OF finished(2)]]
       ext_trans [OF footprint_ext [OF reconcileConfigMap_footprint [OF finished(3)]]
         footprint_ext [OF reconcileSchema_footprint [OF finished(4)]]]]]
  note e5 = footprint_ext [OF reconcileDbSync_footprint [OF finished(5)]]
  note e6 = footprint_ext [OF reconcileDeployment_footprint [OF finished(6)]]
  note e46 = ext_trans [OF e5 e6]
  note u4 = unwritten_split [OF u e04 e46]
  note u5 = unwritten_split [OF u4(2) e5 e6]
  note P = prefix_replay [OF finished(1-4) f u4(1)]
  have f4: "faults s4 = []" using P(1) f by (simp add: frame_def)
  note J = reconcileDbSync_replay [OF finished(5) f4 u5(1)]
  have i: "inst' = inst" using J(2) by simp
  have f5: "faults s5 = []" using J(1) f4 by (simp add: frame_def)
  note D = reconcileDeployment_replay [OF finished(6) f5 u5(2)]
  have "unwritten t (snd (reconcileInstance env inst t))"
    if "faults t = []" "frame {KJob} s t" "jobs t = jobs s'" for t
  proof -
    from P(3) [OF that(1,2)] obtain t1 t2 t3 t4 where
      t: "reconcilePvc env inst t = (Continue (), t1)"
      "reconcileService env inst t1 = (Continue (), t2)"
      "reconcileConfigMap env inst t2 = (Continue cm, t3)"
      "reconcileSchema env inst t3 = (Continue (), t4)" "frame {} t t4" "unwritten t t4"
      by blast
    have "faults t4 = []" "jobs t4 = jobs s5"
      using t(5) that D(1) by (simp_all add: frame_def)
    from J(3) [OF this] obtain out' t5 where
      t5: "reconcileDbSync env inst t4 = (out', t5)" "frame {KJob} t4 t5" "unwritten t4 t5"
      "\<forall>inst'. out' = Continue inst' \<longrightarrow> inst' = inst"
      by blast
    show ?thesis
    proof (cases out')
      case (Return res' err')
      have "reconcileDbSync env inst t4 = (Return res' err', t5)"
        using t5(1) Return by simp
      then have "snd (reconcileInstance env inst t) = t5"
        by (simp add: reconcileInstance_def t(1-4))
      with t(6) t5(3) show ?thesis
        by (auto intro: unwritten_trans)
    next
      case (Continue i')
      with t5(4) have i': "i' = inst" by simp
      have "faults t5 = []" "deployments t5 = deployments s5"
        using t5(2) t(5) that P(1) J(1) \<open>faults t4 = []\<close> by (simp_all add: frame_def)
      from D(2) [OF this] obtain t6 where
        t6: "reconcileDeployment env inst' cm t5 = (Continue (), t6)" "unwritten t5 t6"
        by blast
      have db: "reconcileDbSync env inst t4 = (Continue inst, t5)"
        using t5(1) Continue i' by simp
      have dp: "reconcileDeployment env inst cm t5 = (Continue (), t6)"
        using t6(1) i by simp
      have "snd (reconcileInstance env inst t) = t6"
        by (simp add: reconcileInstance_def t(1-4) db dp)
      with t(6) t5(3) t6(2) show ?thesis
        by (auto intro: unwritten_trans)
    qed
  qed
  moreover have "frame {KJob} s s'"
    using P(1) J(1) D(1) by (simp add: frame_def)
  ultimately show ?thesis by blast
qed

lemma reconcileInstance_footprint_ext:
  assumes "reconcileInstance env inst s = (r, s')"
  shows "\<exists>c. calls s' = calls s @ c"
  using assms
proof (cases rule: reconcileInstance_cases)
  case (pvc res err)
  then show ?thesis by (blast dest: reconcilePvc_footprint footprint_ext)
next
  case (service s1 res err)
  show ?thesis
    by (rule ext_trans [OF footprint_ext [OF reconcilePvc_footprint [OF service(1)]]
          footprint_ext [OF reconcileService_footprint [OF service(2)]]])
next
  case (configmap s1 s2 res err)
  show ?thesis
    by (rule ext_trans [OF footprint_ext [OF reconcilePvc_footprint [OF configmap(1)]]
          ext_trans [OF footprint_ext [OF reconcileService_footprint [OF configmap(2)]]
            footprint_ext [OF reconcileConfigMap_footprint [OF configmap(3)]]]])
next
  case (schema s1 s2 cm s3 res err)
  show ?thesis
    by (rule ext_trans [OF footprint_ext [OF reconcilePvc_footprint [OF schema(1)]]
          ext_trans [OF footprint_ext [OF reconcileService_footprint [OF schema(2)]]
            ext_trans [OF footprint_ext [OF reconcileConfigMap_footprint [OF schema(3)]]
              footprint_ext [OF reconcileSchema_footprint [OF schema(4)]]]]])
next
  case (dbsync s1 s2 cm s3 s4 res err)
  show ?thesis
    by (rule ext_trans [OF footprint_ext [OF reconcilePvc_footprint [OF dbsync(1)]]
          ext_trans [OF footprint_ext [OF reconcileService_footprint [OF dbsync(2)]]
            ext_trans [OF footprint_ext [OF reconcileConfigMap_footprint [OF dbsync(3)]]
              ext_trans [OF footprint_ext [OF reconcileSchema_footprint [OF dbsync(4)]]
                footprint_ext [OF reconcileDbSync_footprint [OF dbsync(5)]]]]]])
next
  case (deployment s1 s2 cm s3 s4 inst' s5 res err)
  show ?thesis
    by (rule ext_trans [OF footprint_ext [OF reconcilePvc_footprint [OF deployment(1)]]
          ext_trans [OF footprint_ext [OF reconcileService_footprint [OF deployment(2)]]
            ext_trans [OF footprint_ext [OF reconcileConfigMap_footprint [OF deployment(3)]]
              ext_trans [OF footprint_ext [OF reconcileSchema_footprint [OF deployment(4)]]
                ext_trans [OF footprint_ext [OF reconcileDbSync_footprint [OF deployment(5)]]
                  footprint_ext [OF reconcileDeployment_footprint [OF deployment(6)]]]]]]])
next
  case (finished s1 s2 cm s3 s4 inst' s5)
  show ?thesis
    by (rule ext_trans [OF footprint_ext [OF reconcilePvc_footprint [OF finished(1)]]
          ext_trans [OF footprint_ext [OF reconcileService_footprint [OF finished(2)]]
            ext_trans [OF footprint_ext [OF reconcileConfigMap_footprint [OF finished(3)]]
              ext_trans [OF footprint_ext [OF reconcileSchema_footprint [OF finished(4)]]
                ext_trans [OF footprint_ext [OF reconcileDbSync_footprint [OF finished(5)]]
                  footprint_ext [OF reconcileDeployment_footprint [OF finished(6)]]]]]]])
qed

text \<open>
  \<open>DeleteJob\<close> calls the store, for the job only, and without store errors leaves no job
  behind.
\<close>

lemma DeleteJob_reclaims:
  assumes "DeleteJob job s = (r, s')"
  shows "new_calls s s' \<noteq> []"
    and "\<forall>x\<in>set (new_calls s s'). \<exists>n out. x = (Get KJob n, out) \<or> x = (Delete KJob n, out)"
    and "glanceapis s' = glanceapis s"
    and "faults s = [] \<Longrightarrow> (\<And>j. jobs s (key job) = Some j \<Longrightarrow> key j = key job) \<Longrightarrow>
           snd r = None \<and> jobs s' = (jobs s)(key job := None)
           \<and> (\<forall>x\<in>set (new_calls s s').
                  \<exists>out. x = (Get KJob (key job), out) \<or> x = (Delete KJob (key job), out))
           \<and> (jobs s (key job) \<noteq> None \<longrightarrow> (Delete KJob (key job), None) \<in> set (new_calls s s'))"
  using assms
  by (auto simp: DeleteJob_def Get_Job_def Delete_Job_def block_defs new_calls_def
      split: phase_splits)

subsection \<open>The drifted ConfigMap\<close>

lemma data_neq:
  "Mapping.update ''glance-api.conf'' ''[DEFAULT] debug = True'' Mapping.empty
     \<noteq> Mapping.update ''glance-api.conf'' ''[DEFAULT]'' Mapping.empty"
proof
  assume "Mapping.update ''glance-api.conf'' ''[DEFAULT] debug = True'' Mapping.empty
     = Mapping.update ''glance-api.conf'' ''[DEFAULT]'' Mapping.empty"
  then have "Mapping.lookup
      (Mapping.update ''glance-api.conf'' ''[DEFAULT] debug = True'' Mapping.empty)
      ''glance-api.conf''
    = Mapping.lookup (Mapping.update ''glance-api.conf'' ''[DEFAULT]'' Mapping.empty)
      ''glance-api.conf''"
    by simp
  then show False
    by (simp add: Mapping.lookup_update)
qed

lemma afterUpdate_fields:
  "glanceapis afterUpdate = glanceapis driftedStore" "pvcs afterUpdate = pvcs driftedStore"
  "services afterUpdate = services driftedStore"
  "configmaps afterUpdate = [exRequest \<mapsto> driftedConfigMap\<lparr>Data := None\<rparr>]"
  "faults afterUpdate = []"
  by (simp_all add: afterUpdate_def exTemplatesNoData_def driftedStore_def driftedConfigMap_def
      reconcile_defs client_defs example_defs)

section \<open>The claims\<close>

subsection \<open>The job and the dependency gate\<close>

text \<open>
  Claim C1, evaluated where it fails. PVC, Service and ConfigMap are live, the schema
  object is not. The schema block gets NotFound, creates the object and falls through
  (\<open>Continue\<close>) instead of returning a requeue. The pass therefore goes on to the job
  block in the same pass: it creates the DB sync job while the schema object it has just
  created carries no completion flag, and only then requeues.
\<close>

theorem job_created_before_schema_ready:
  "schemas storeBeforeSchema exRequest = None
   \<and> fst (reconcileSchema exTemplates exInstance storeBeforeSchema) = Continue ()
   \<and> fst (Reconcile exTemplates exRequest storeBeforeSchema) = (requeueAfter (Second * 5), None)
   \<and> new_calls storeBeforeSchema (snd (Reconcile exTemplates exRequest storeBeforeSchema)) =
       [(Get KGlanceAPI exRequest, None),
        (Get KPersistentVolumeClaim exRequest, None),
        (Get KService exRequest, None),
        (Get KConfigMap exRequest, None),
        (Get KSchema exRequest, Some NotFound),
        (Create KSchema exRequest, None),
        (Get KJob exJobKey, Some NotFound),
        (Create KJob exJobKey, None)]
   \<and> map_option statusCompleted
        (schemas (snd (Reconcile exTemplates exRequest storeBeforeSchema)) exRequest)
       = Some FieldMissing"
  by (simp add: reconcile_defs client_defs example_defs)

subsection \<open>The skip law\<close>

text \<open>
  Claim C2 fails as stated: in the converged store, where Status records the job's
  fingerprint and the job is gone, the job block still calls the store, because
  \<open>DeleteJob\<close> is called whether or not \<open>EnsureJob\<close> was skipped.
\<close>

theorem skip_law_counterexample:
  "ObjectHash_Job exTemplates (glance_DbSyncJob exTemplates convergedInstance)
     = Inr (DbSyncHash (Status convergedInstance))
   \<and> new_calls convergedStore (snd (reconcileDbSync exTemplates convergedInstance convergedStore))
     = [(Get KJob exJobKey, Some NotFound)]
   \<and> new_calls convergedStore (snd (reconcileDbSync exTemplates convergedInstance convergedStore))
     \<noteq> []"
  by (simp add: reconcile_defs client_defs example_defs)

text \<open>
  Claim C2, amended. When Status records the fingerprint of the desired job,
  \<open>EnsureJob\<close> is not run (lines 160-170 leave the store as it is and fall through), no
  status is written, and the job block never returns a requeue. It does call the store:
  it is exactly the call of \<open>DeleteJob\<close> on the desired job (line 176), whose error it
  returns with the empty result and after which it falls through with the instance
  unchanged. So it makes at least one call, and all its calls are fetches or deletions
  of jobs. Without store errors and with objects stored under their own names, it falls
  through, its calls are fetches or deletions of the desired job, a job that was still
  live has been deleted by a call that succeeded, and no job is live afterwards.
\<close>

theorem recorded_hash_skips_ensure_job:
  assumes "glance_DbSyncJob env instance = job"
    and "ObjectHash_Job env job = Inr (DbSyncHash (Status instance))"
  shows "runDbSync instance job (DbSyncHash (Status instance)) s = (Continue (), s)
       \<and> reconcileDbSync env instance s =
            (case DeleteJob job s of
               ((requeue, Some err), s') \<Rightarrow>
                 (Return \<lparr>Requeue = False, RequeueAfter = 0\<rparr> (Some err), s')
             | ((requeue, None), s') \<Rightarrow> (Continue instance, s'))
       \<and> new_calls s (snd (reconcileDbSync env instance s)) \<noteq> []
       \<and> (\<forall>x\<in>set (new_calls s (snd (reconcileDbSync env instance s))).
             \<exists>n out. x = (Get KJob n, out) \<or> x = (Delete KJob n, out))
       \<and> glanceapis (snd (reconcileDbSync env instance s)) = glanceapis s
       \<and> (faults s = [] \<and> wf_store s \<longrightarrow>
             fst (reconcileDbSync env instance s) = Continue instance
             \<and> jobs (snd (reconcileDbSync env instance s)) = (jobs s)(key job := None)
             \<and> (\<forall>x\<in>set (new_calls s (snd (reconcileDbSync env instance s))).
                   \<exists>out. x = (Get KJob (key job), out) \<or> x = (Delete KJob (key job), out))
             \<and> (jobs s (key job) \<noteq> None \<longrightarrow>
                   (Delete KJob (key job), None)
                     \<in> set (new_calls s (snd (reconcileDbSync env instance s)))))"
proof -
  have run: "runDbSync instance job (DbSyncHash (Status instance)) s = (Continue (), s)"
    by (simp add: runDbSync_def)
  obtain requeue err s' where del: "DeleteJob job s = ((requeue, err), s')"
    by (metis prod.exhaust)
  have eq: "reconcileDbSync env instance s =
            (case DeleteJob job s of
               ((requeue, Some err), s') \<Rightarrow>
                 (Return \<lparr>Requeue = False, RequeueAfter = 0\<rparr> (Some err), s')
             | ((requeue, None), s') \<Rightarrow> (Continue instance, s'))"
  proof -
    have "ObjectHash_Job env (glance_DbSyncJob env instance)
        = Inr (DbSyncHash (Status instance))"
      using assms by simp
    from reconcileDbSync_recorded [OF this] assms(1) show ?thesis
      by (simp add: emptyResult_def split: prod.splits option.splits)
  qed
  then have res: "snd (reconcileDbSync env instance s) = s'"
    and out: "err = None \<Longrightarrow> fst (reconcileDbSync env instance s) = Continue instance"
    using del by (auto split: option.splits)
  note D = DeleteJob_reclaims [OF del]
  have wfj: "\<And>j. jobs s (key job) = Some j \<Longrightarrow> key j = key job" if "wf_store s"
    using that unfolding wf_store_def by blast
  have "fst (reconcileDbSync env instance s) = Continue instance
      \<and> jobs s' = (jobs s)(key job := None)
      \<and> (\<forall>x\<in>set (new_calls s s').
            \<exists>out. x = (Get KJob (key job), out) \<or> x = (Delete KJob (key job), out))
      \<and> (jobs s (key job) \<noteq> None \<longrightarrow> (Delete KJob (key job), None) \<in> set (new_calls s s'))"
    if "faults s = []" "wf_store s"
    using D(4) [OF that(1) wfj [OF that(2)]] out by simp
  with run eq D(1,2,3) show ?thesis
    unfolding res by blast
qed

theorem recorded_hash_skips_ensure_job_witness:
  "glance_DbSyncJob exTemplates convergedInstance
     = \<lparr>Name = ''glance-db-sync'', Namespace = ''openstack'', jobSpec = ''db_sync'',
        jobStatus = JobRunning\<rparr>
   \<and> ObjectHash_Job exTemplates (glance_DbSyncJob exTemplates convergedInstance)
        = Inr (DbSyncHash (Status convergedInstance))
   \<and> faults convergedStore = [] \<and> wf_store convergedStore
   \<and> jobs convergedStore exJobKey = None
   \<and> fst (reconcileDbSync exTemplates convergedInstance convergedStore)
        = Continue convergedInstance
   \<and> new_calls convergedStore
        (snd (reconcileDbSync exTemplates convergedInstance convergedStore)) \<noteq> []
   \<and> faults storeJobLeft = [] \<and> wf_store storeJobLeft
   \<and> jobs storeJobLeft exJobKey \<noteq> None
   \<and> fst (reconcileDbSync exTemplates convergedInstance storeJobLeft)
        = Continue convergedInstance
   \<and> (Delete KJob exJobKey, None)
        \<in> set (new_calls storeJobLeft
                 (snd (reconcileDbSync exTemplates convergedInstance storeJobLeft)))
   \<and> jobs (snd (reconcileDbSync exTemplates convergedInstance storeJobLeft)) exJobKey = None
   \<and> glanceapis (snd (reconcileDbSync exTemplates convergedInstance storeJobLeft))
        = glanceapis storeJobLeft"
proof -
  let ?job = "\<lparr>Name = ''glance-db-sync'', Namespace = ''openstack'', jobSpec = ''db_sync'',
        jobStatus = JobRunning\<rparr>"
  have j: "glance_DbSyncJob exTemplates convergedInstance = ?job"
    by (simp add: example_defs)
  have h: "ObjectHash_Job exTemplates ?job = Inr (DbSyncHash (Status convergedInstance))"
    by (simp add: example_defs)
  have k: "key ?job = exJobKey"
    by (simp add: key_def exJobKey_def)
  have c: "faults convergedStore = []" "wf_store convergedStore"
    "jobs convergedStore exJobKey = None"
    by (simp_all add: wf_convergedStore) (simp_all add: example_defs)
  have l: "faults storeJobLeft = []" "wf_store storeJobLeft"
    "jobs storeJobLeft exJobKey \<noteq> None"
    by (simp_all add: storeJobLeft_def wf_store_def key_def example_defs)
  note T1 = recorded_hash_skips_ensure_job [OF j h, of convergedStore, unfolded k]
  note T2 = recorded_hash_skips_ensure_job [OF j h, of storeJobLeft, unfolded k]
  from T1 c(1,2) have a:
    "fst (reconcileDbSync exTemplates convergedInstance convergedStore)
        = Continue convergedInstance"
    "new_calls convergedStore
        (snd (reconcileDbSync exTemplates convergedInstance convergedStore)) \<noteq> []"
    by blast+
  from T2 l have b:
    "fst (reconcileDbSync exTemplates convergedInstance storeJobLeft)
        = Continue convergedInstance"
    "(Delete KJob exJobKey, None)
        \<in> set (new_calls storeJobLeft
                 (snd (reconcileDbSync exTemplates convergedInstance storeJobLeft)))"
    "jobs (snd (reconcileDbSync exTemplates convergedInstance storeJobLeft))
        = (jobs storeJobLeft)(exJobKey := None)"
    "glanceapis (snd (reconcileDbSync exTemplates convergedInstance storeJobLeft))
        = glanceapis storeJobLeft"
    by blast+
  show ?thesis
    using j h c l a b by simp
qed

subsection \<open>Two passes in succession\<close>




subsection \<open>An error of the ConfigMap fetch\<close>

text \<open>
  Claim C4, evaluated where it fails. In the converged store the fetch of the ConfigMap
  fails with a transient error. The pass does not return it: the ConfigMap block has no
  branch for it, compares the desired Data with the Data of the zero-valued object, calls
  Update on that object, and returns the error of the Update.
\<close>

theorem configmap_fetch_error_dropped:
  "fst (Reconcile exTemplates exRequest storeConfigMapFetchFails) = (emptyResult, Some Invalid)
   \<and> new_calls storeConfigMapFetchFails
        (snd (Reconcile exTemplates exRequest storeConfigMapFetchFails)) =
       [(Get KGlanceAPI exRequest, None),
        (Get KPersistentVolumeClaim exRequest, None),
        (Get KService exRequest, None),
        (Get KConfigMap exRequest, Some (StoreError ''request timed out'')),
        (Update KConfigMap ([], []), Some Invalid)]"
  by (simp add: storeConfigMapFetchFails_def reconcile_defs client_defs example_defs)

subsection \<open>Drift of the ConfigMap\<close>

text \<open>
  Claim C5 fails as stated, in both halves. A pass reaches the ConfigMap only when PVC
  and Service are there: on the drifted store without a PVC the pass creates the PVC and
  leaves the drifted ConfigMap as it is. And when the desired Data is an empty, non-nil
  map, the pass after the Update updates again: the store hands back the nil map for it,
  which \<^verbatim>\<open>reflect.DeepEqual\<close> tells apart from the empty one.
\<close>

theorem configmap_drift_counterexample:
  "configmaps driftedStoreNoPvc exRequest = Some driftedConfigMap
   \<and> Data driftedConfigMap \<noteq> Data (glance_ConfigMap exTemplates exInstance)
   \<and> new_calls driftedStoreNoPvc (snd (Reconcile exTemplates exRequest driftedStoreNoPvc)) =
       [(Get KGlanceAPI exRequest, None),
        (Get KPersistentVolumeClaim exRequest, Some NotFound),
        (Create KPersistentVolumeClaim exRequest, None)]
   \<and> configmaps (snd (Reconcile exTemplates exRequest driftedStoreNoPvc)) exRequest
       = Some driftedConfigMap
   \<and> configmaps driftedStore exRequest = Some driftedConfigMap
   \<and> Data driftedConfigMap \<noteq> Data (glance_ConfigMap exTemplatesNoData exInstance)
   \<and> new_calls driftedStore afterUpdate =
       [(Get KGlanceAPI exRequest, None),
        (Get KPersistentVolumeClaim exRequest, None),
        (Get KService exRequest, None),
        (Get KConfigMap exRequest, None),
        (Update KConfigMap exRequest, None)]
   \<and> new_calls afterUpdate (snd (Reconcile exTemplatesNoData exRequest afterUpdate)) =
       [(Get KGlanceAPI exRequest, None),
        (Get KPersistentVolumeClaim exRequest, None),
        (Get KService exRequest, None),
        (Get KConfigMap exRequest, None),
        (Update KConfigMap exRequest, None)]"
proof -
  have a: "configmaps driftedStoreNoPvc exRequest = Some driftedConfigMap"
    "Data driftedConfigMap \<noteq> Data (glance_ConfigMap exTemplates exInstance)"
    "configmaps driftedStore exRequest = Some driftedConfigMap"
    "Data driftedConfigMap \<noteq> Data (glance_ConfigMap exTemplatesNoData exInstance)"
    using data_neq
    by (simp_all add: driftedStoreNoPvc_def exTemplatesNoData_def driftedStore_def
        driftedConfigMap_def example_defs)
  have b: "new_calls driftedStoreNoPvc
        (snd (Reconcile exTemplates exRequest driftedStoreNoPvc)) =
       [(Get KGlanceAPI exRequest, None),
        (Get KPersistentVolumeClaim exRequest, Some NotFound),
        (Create KPersistentVolumeClaim exRequest, None)]"
    "configmaps (snd (Reconcile exTemplates exRequest driftedStoreNoPvc)) exRequest
       = Some driftedConfigMap"
    by (simp_all add: driftedStoreNoPvc_def driftedStore_def reconcile_defs client_defs
        example_defs)
  have c: "new_calls driftedStore afterUpdate =
       [(Get KGlanceAPI exRequest, None),
        (Get KPersistentVolumeClaim exRequest, None),
        (Get KService exRequest, None),
        (Get KConfigMap exRequest, None),
        (Update KConfigMap exRequest, None)]"
    by (simp add: afterUpdate_def exTemplatesNoData_def driftedStore_def driftedConfigMap_def
        reconcile_defs client_defs example_defs)
  have d: "new_calls afterUpdate (snd (Reconcile exTemplatesNoData exRequest afterUpdate)) =
       [(Get KGlanceAPI exRequest, None),
        (Get KPersistentVolumeClaim exRequest, None),
        (Get KService exRequest, None),
        (Get KConfigMap exRequest, None),
        (Update KConfigMap exRequest, None)]"
    by (simp add: afterUpdate_fields exTemplatesNoData_def driftedStore_def driftedConfigMap_def
        reconcile_defs client_defs example_defs)
  from a b c d show ?thesis
    by blast
qed

text \<open>
  Claim C5, amended. Without store errors, on a store whose objects are stored under
  their own names, with the instance, its PVC and its Service live, and with desired Data
  that are nil or have an entry: when the Data of the live ConfigMap differ from the
  desired Data, the pass makes four fetches and one Update of the ConfigMap, which
  succeeds and leaves the live ConfigMap with the desired Data, and returns
  \<^verbatim>\<open>ctrl.Result{RequeueAfter: 5s}\<close> without error; the pass that follows it with nothing
  changed in between makes no Update of a ConfigMap.
\<close>

theorem configmap_drift_updated_once:
  assumes "faults s = []"
    and "wf_store s"
    and "glanceapis s req = Some instance"
    and "pvcs s (key (glance_Pvc env instance)) = Some foundPvc"
    and "services s (key (glance_Service env instance)) = Some foundService"
    and "configmaps s (key (glance_ConfigMap env instance)) = Some live"
    and "Data live \<noteq> Data (glance_ConfigMap env instance)"
    and "Data (glance_ConfigMap env instance) \<noteq> Some Mapping.empty"
  shows "fst (Reconcile env req s) = (\<lparr>Requeue = False, RequeueAfter = 5000000000\<rparr>, None)
    \<and> new_calls s (snd (Reconcile env req s)) =
        [(Get KGlanceAPI req, None),
         (Get KPersistentVolumeClaim (key (glance_Pvc env instance)), None),
         (Get KService (key (glance_Service env instance)), None),
         (Get KConfigMap (key (glance_ConfigMap env instance)), None),
         (Update KConfigMap (key (glance_ConfigMap env instance)), None)]
    \<and> configmaps (snd (Reconcile env req s)) (key (glance_ConfigMap env instance))
        = Some (live\<lparr>Data := Data (glance_ConfigMap env instance)\<rparr>)
    \<and> (\<forall>n out. (Update KConfigMap n, out) \<notin>
          set (new_calls (snd (Reconcile env req s))
                 (snd (Reconcile env req (snd (Reconcile env req s))))))"
proof -
  let ?cm = "glance_ConfigMap env instance"
  define s1 where "s1 = snd (Reconcile env req s)"
  note wl = wf_store_configmap [OF assms(2,6)]
  have kl: "key live = key ?cm"
    by (rule wl(1))
  have nm: "Name live \<noteq> []"
    by (rule wl(4))
  have od: "omitempty (Data ?cm) = Data ?cm"
    using assms(8) by (cases "Data ?cm") (simp_all add: is_empty_iff)
  have first: "fst (Reconcile env req s) = (\<lparr>Requeue = False, RequeueAfter = 5000000000\<rparr>, None)"
    using assms kl wl(3) nm by (simp add: run_defs requeueAfter_def Second_def)
  have calls1: "calls s1 = calls s @
        [(Get KGlanceAPI req, None),
         (Get KPersistentVolumeClaim (key (glance_Pvc env instance)), None),
         (Get KService (key (glance_Service env instance)), None),
         (Get KConfigMap (key ?cm), None),
         (Update KConfigMap (key ?cm), None)]"
    unfolding s1_def using assms kl wl(3) nm by (simp add: run_defs)
  have s1: "faults s1 = []" "glanceapis s1 req = Some instance"
    "pvcs s1 (key (glance_Pvc env instance)) = Some foundPvc"
    "services s1 (key (glance_Service env instance)) = Some foundService"
    "configmaps s1 (key ?cm) = Some (live\<lparr>Data := Data ?cm\<rparr>)"
    unfolding s1_def using assms kl wl(3) nm od by (simp_all add: run_defs)
  define t0 where "t0 = record_call (Get KGlanceAPI req) None s1"
  define t1 where
    "t1 = record_call (Get KPersistentVolumeClaim (key (glance_Pvc env instance))) None t0"
  define t2 where "t2 = record_call (Get KService (key (glance_Service env instance))) None t1"
  define t3 where "t3 = record_call (Get KConfigMap (key ?cm)) None t2"
  have second: "Reconcile env req s1 = reconcileInstance env instance t0"
    unfolding t0_def using s1 by (simp add: head_defs)
  have p1: "reconcilePvc env instance t0 = (Continue (), t1)"
    unfolding t1_def t0_def using s1 by (simp add: head_defs)
  have p2: "reconcileService env instance t1 = (Continue (), t2)"
    unfolding t2_def t1_def t0_def using s1 by (simp add: head_defs)
  have p3: "reconcileConfigMap env instance t2 = (Continue ?cm, t3)"
    unfolding t3_def t2_def t1_def t0_def using s1 od by (simp add: head_defs)
  define s2 where "s2 = snd (Reconcile env req s1)"
  have "reconcileInstance env instance t0 = (fst (Reconcile env req s1), s2)"
    unfolding s2_def second by simp
  from reconcileInstance_after_configmap [OF this p1 p2 p3]
  obtain cs where cs: "calls s2 = calls t3 @ cs"
    "\<forall>x\<in>set cs. call_kind (fst x) \<in> {KSchema, KJob, KGlanceAPI, KDeployment}"
    unfolding calls_in_def by blast
  have "new_calls s1 s2 =
        [(Get KGlanceAPI req, None),
         (Get KPersistentVolumeClaim (key (glance_Pvc env instance)), None),
         (Get KService (key (glance_Service env instance)), None),
         (Get KConfigMap (key ?cm), None)] @ cs"
    using cs(1) by (simp add: new_calls_def t3_def t2_def t1_def t0_def)
  then have "\<forall>n out. (Update KConfigMap n, out) \<notin> set (new_calls s1 s2)"
    using cs(2) by auto
  moreover have "new_calls s s1 =
        [(Get KGlanceAPI req, None),
         (Get KPersistentVolumeClaim (key (glance_Pvc env instance)), None),
         (Get KService (key (glance_Service env instance)), None),
         (Get KConfigMap (key ?cm), None),
         (Update KConfigMap (key ?cm), None)]"
    using calls1 by (simp add: new_calls_def)
  ultimately show ?thesis
    using first s1(5) unfolding s2_def s1_def by blast
qed

theorem configmap_drift_updated_once_witness:
  "faults driftedStore = [] \<and> wf_store driftedStore
   \<and> glanceapis driftedStore exRequest = Some exInstance
   \<and> pvcs driftedStore (key (glance_Pvc exTemplates exInstance)) \<noteq> None
   \<and> services driftedStore (key (glance_Service exTemplates exInstance)) \<noteq> None
   \<and> configmaps driftedStore (key (glance_ConfigMap exTemplates exInstance))
        = Some driftedConfigMap
   \<and> Data driftedConfigMap \<noteq> Data (glance_ConfigMap exTemplates exInstance)
   \<and> Data (glance_ConfigMap exTemplates exInstance) \<noteq> Some Mapping.empty
   \<and> fst (Reconcile exTemplates exRequest driftedStore)
        = (\<lparr>Requeue = False, RequeueAfter = 5000000000\<rparr>, None)
   \<and> new_calls driftedStore (snd (Reconcile exTemplates exRequest driftedStore)) =
        [(Get KGlanceAPI exRequest, None),
         (Get KPersistentVolumeClaim (key (glance_Pvc exTemplates exInstance)), None),
         (Get KService (key (glance_Service exTemplates exInstance)), None),
         (Get KConfigMap (key (glance_ConfigMap exTemplates exInstance)), None),
         (Update KConfigMap (key (glance_ConfigMap exTemplates exInstance)), None)]
   \<and> configmaps (snd (Reconcile exTemplates exRequest driftedStore))
          (key (glance_ConfigMap exTemplates exInstance))
        = Some (driftedConfigMap\<lparr>Data := Data (glance_ConfigMap exTemplates exInstance)\<rparr>)
   \<and> (\<forall>n out. (Update KConfigMap n, out) \<notin>
          set (new_calls (snd (Reconcile exTemplates exRequest driftedStore))
                 (snd (Reconcile exTemplates exRequest
                   (snd (Reconcile exTemplates exRequest driftedStore))))))"
proof -
  have h: "faults driftedStore = []" "wf_store driftedStore"
    "glanceapis driftedStore exRequest = Some exInstance"
    "pvcs driftedStore (key (glance_Pvc exTemplates exInstance))
       = Some (glance_Pvc exTemplates exInstance)"
    "services driftedStore (key (glance_Service exTemplates exInstance))
       = Some (glance_Service exTemplates exInstance)"
    "configmaps driftedStore (key (glance_ConfigMap exTemplates exInstance))
       = Some driftedConfigMap"
    "Data driftedConfigMap \<noteq> Data (glance_ConfigMap exTemplates exInstance)"
    "Data (glance_ConfigMap exTemplates exInstance) \<noteq> Some Mapping.empty"
    using data_neq
    by (simp_all add: driftedStore_def driftedConfigMap_def example_defs wf_store_def key_def)
  from configmap_drift_updated_once [OF h] h show ?thesis
    by blast
qed

subsection \<open>The converged state\<close>

text \<open>
  Claim C6 fails as stated: in the store reached right after the pass that created the
  Deployment, once its replicas are ready, every managed resource is live and equal to
  its desired description, the schema object reports completed, the job's fingerprint is
  recorded and the job is gone, and the ready replicas equal the desired ones. The pass
  nevertheless updates the Deployment, records its fingerprint and requeues after 10
  seconds: the branch that creates the Deployment (lines 197-204) does not record the
  fingerprint, and line 210 compares fingerprints, not Deployments.
\<close>

theorem converged_without_deployment_hash:
  "glanceapis storeDeploymentReady exRequest
     = Some (exInstance\<lparr>Status := \<lparr>DbSyncHash = ''#db_sync'', DeploymentHash = []\<rparr>\<rparr>)
   \<and> pvcs storeDeploymentReady exRequest = Some (glance_Pvc exTemplates exInstance)
   \<and> services storeDeploymentReady exRequest = Some (glance_Service exTemplates exInstance)
   \<and> configmaps storeDeploymentReady exRequest = Some (glance_ConfigMap exTemplates exInstance)
   \<and> map_option statusCompleted (schemas storeDeploymentReady exRequest) = Some (FieldBool True)
   \<and> ObjectHash_Job exTemplates (glance_DbSyncJob exTemplates exInstance) = Inr ''#db_sync''
   \<and> jobs storeDeploymentReady exJobKey = None
   \<and> deployments storeDeploymentReady exRequest
        = Some ((glance_Deployment exTemplates exInstance ''#cm'')
                  \<lparr>deploymentStatus := \<lparr>ReadyReplicas = 1\<rparr>\<rparr>)
   \<and> Replicas (Spec exInstance) = 1
   \<and> fst (Reconcile exTemplates exRequest storeDeploymentReady)
        = (requeueAfter (Second * 10), None)
   \<and> fst (Reconcile exTemplates exRequest storeDeploymentReady) \<noteq> (emptyResult, None)
   \<and> new_calls storeDeploymentReady
        (snd (Reconcile exTemplates exRequest storeDeploymentReady)) =
       [(Get KGlanceAPI exRequest, None),
        (Get KPersistentVolumeClaim exRequest, None),
        (Get KService exRequest, None),
        (Get KConfigMap exRequest, None),
        (Get KSchema exRequest, None),
        (Get KJob exJobKey, Some NotFound),
        (Get KDeployment exRequest, None),
        (Update KDeployment exRequest, None),
        (StatusUpdate exRequest
           \<lparr>DbSyncHash = ''#db_sync'', DeploymentHash = ''#config=#cm''\<rparr>, None)]"
  by (simp add: storeDeploymentReady_def storeDeploymentCreated_def reconcile_defs client_defs
      example_defs)

text \<open>
  Claim C6, amended. Without store errors: when PVC, Service and ConfigMap are live and the
  ConfigMap has the desired Data, the schema object reports completed, Status records the
  fingerprint of the desired job and that of the desired Deployment (which is how the
  reconciler decides that the live Deployment matches), and the ready replicas of the live
  Deployment equal the replicas of the Specification, then the pass returns
  \<^verbatim>\<open>ctrl.Result{}, nil\<close>: no requeue, no error. The job may be gone or still there.
\<close>

theorem converged_pass_returns_no_requeue:
  assumes "faults s = []"
    and "wf_store s"
    and "glanceapis s req = Some instance"
    and "pvcs s (key (glance_Pvc env instance)) = Some foundPvc"
    and "services s (key (glance_Service env instance)) = Some foundService"
    and "configmaps s (key (glance_ConfigMap env instance)) = Some foundConfigMap"
    and "Data foundConfigMap = Data (glance_ConfigMap env instance)"
    and "glance_SchemaObject env instance = Inr schemaObj"
    and "schemas s (key schemaObj) = Some foundSchema"
    and "statusCompleted foundSchema = FieldBool True"
    and "ObjectHash_Job env (glance_DbSyncJob env instance) = Inr (DbSyncHash (Status instance))"
    and "ObjectHash_ConfigMap env (glance_ConfigMap env instance) = Inr configMapHash"
    and "ObjectHash_Deployment env (glance_Deployment env instance configMapHash)
           = Inr (DeploymentHash (Status instance))"
    and "deployments s (key (glance_Deployment env instance configMapHash)) = Some foundDeployment"
    and "ReadyReplicas (deploymentStatus foundDeployment) = Replicas (Spec instance)"
  shows "fst (Reconcile env req s) = (emptyResult, None)"
proof (cases "jobs s (key (glance_DbSyncJob env instance))")
  case None
  with assms wf_store_configmap(3) [OF assms(2,6)] show ?thesis
    by (simp add: run_defs)
next
  case (Some foundJob)
  with assms(2) have "key foundJob = key (glance_DbSyncJob env instance)"
    unfolding wf_store_def by blast
  with Some assms wf_store_configmap(3) [OF assms(2,6)] show ?thesis
    by (simp add: run_defs)
qed

theorem converged_pass_returns_no_requeue_witness:
  "faults convergedStore = [] \<and> wf_store convergedStore
   \<and> glanceapis convergedStore exRequest = Some convergedInstance
   \<and> map_option statusCompleted (schemas convergedStore exRequest) = Some (FieldBool True)
   \<and> ObjectHash_Job exTemplates (glance_DbSyncJob exTemplates convergedInstance)
        = Inr (DbSyncHash (Status convergedInstance))
   \<and> ObjectHash_Deployment exTemplates (glance_Deployment exTemplates convergedInstance ''#cm'')
        = Inr (DeploymentHash (Status convergedInstance))
   \<and> map_option (\<lambda>d. ReadyReplicas (deploymentStatus d)) (deployments convergedStore exRequest)
        = Some (Replicas (Spec convergedInstance))
   \<and> fst (Reconcile exTemplates exRequest convergedStore) = (emptyResult, None)"
proof -
  have h: "faults convergedStore = []"
    "glanceapis convergedStore exRequest = Some convergedInstance"
    "pvcs convergedStore (key (glance_Pvc exTemplates convergedInstance))
       = Some (glance_Pvc exTemplates exInstance)"
    "services convergedStore (key (glance_Service exTemplates convergedInstance))
       = Some (glance_Service exTemplates exInstance)"
    "configmaps convergedStore (key (glance_ConfigMap exTemplates convergedInstance))
       = Some (glance_ConfigMap exTemplates exInstance)"
    "Data (glance_ConfigMap exTemplates exInstance)
       = Data (glance_ConfigMap exTemplates convergedInstance)"
    "glance_SchemaObject exTemplates convergedInstance
       = Inr \<lparr>Name = ''glance'', Namespace = ''openstack'', statusCompleted = FieldMissing\<rparr>"
    "schemas convergedStore
       (key \<lparr>Name = ''glance'', Namespace = ''openstack'', statusCompleted = FieldMissing\<rparr>)
       = Some \<lparr>Name = ''glance'', Namespace = ''openstack'', statusCompleted = FieldBool True\<rparr>"
    "statusCompleted \<lparr>Name = ''glance'', Namespace = ''openstack'',
        statusCompleted = FieldBool True\<rparr> = FieldBool True"
    "ObjectHash_Job exTemplates (glance_DbSyncJob exTemplates convergedInstance)
        = Inr (DbSyncHash (Status convergedInstance))"
    "ObjectHash_ConfigMap exTemplates (glance_ConfigMap exTemplates convergedInstance)
        = Inr ''#cm''"
    "ObjectHash_Deployment exTemplates (glance_Deployment exTemplates convergedInstance ''#cm'')
        = Inr (DeploymentHash (Status convergedInstance))"
    "deployments convergedStore
       (key (glance_Deployment exTemplates convergedInstance ''#cm''))
       = Some \<lparr>Name = ''glance'', Namespace = ''openstack'', deploymentSpec = ''config=#cm'',
                deploymentStatus = \<lparr>ReadyReplicas = 1\<rparr>\<rparr>"
    "ReadyReplicas (deploymentStatus \<lparr>Name = ''glance'', Namespace = ''openstack'',
        deploymentSpec = ''config=#cm'', deploymentStatus = \<lparr>ReadyReplicas = 1\<rparr>\<rparr>)
       = Replicas (Spec convergedInstance)"
    by (simp_all add: example_defs key_def)
  from converged_pass_returns_no_requeue
    [OF h(1) wf_convergedStore h(2) h(3) h(4) h(5) h(6) h(7) h(8) h(9) h(10) h(11) h(12)
        h(13) h(14)]
  show ?thesis
    using h wf_convergedStore by (simp add: example_defs)
qed

subsection \<open>Status is written after the fact\<close>

text \<open>
  Claim C7. Whatever errors the store returns: take any write of the status in the calls
  of a pass, with the calls before it. If it changes DbSyncHash, the job was completed
  in the store and the pass has fetched it successfully before the write. If it changes
  DeploymentHash, the call directly before it is an Update of the Deployment that
  returned no error.
\<close>

theorem status_hash_written_after_success:
  assumes "Reconcile env req s = (res, s')"
    and "glanceapis s req = Some instance"
    and "new_calls s s' = before @ (StatusUpdate n st, out) # after"
  shows "(DbSyncHash st \<noteq> DbSyncHash (Status instance) \<longrightarrow>
            (\<exists>j. jobs s (key (glance_DbSyncJob env instance)) = Some j
                  \<and> jobStatus j = JobCompleted)
            \<and> (Get KJob (key (glance_DbSyncJob env instance)), None) \<in> set before)
       \<and> (DeploymentHash st \<noteq> DeploymentHash (Status instance) \<longrightarrow>
            (\<exists>pre n'. before = pre @ [(Update KDeployment n', None)]))"
proof -
  let ?jk = "key (glance_DbSyncJob env instance)"
  let ?jd = "\<exists>j. jobs s ?jk = Some j \<and> jobStatus j = JobCompleted"
  have "justified ?jk (Status instance) ?jd (new_calls s s')"
  proof (cases "injected s")
    case (Some err)
    with assms(1) have "calls s' = calls s @ [(Get KGlanceAPI req, Some err)]"
      by (auto simp: Reconcile_def Get_GlanceAPI_def client_get_def split: if_splits)
    then have "new_calls s s' = [(Get KGlanceAPI req, Some err)]"
      by (simp add: new_calls_def)
    then show ?thesis
      by (simp add: justified_quiet)
  next
    case None
    define s0 where "s0 = record_call (Get KGlanceAPI req) None s"
    have j0: "jobs s0 = jobs s"
      by (simp add: s0_def)
    from None assms(1,2) have "reconcileInstance env instance s0 = (res, s')"
      by (simp add: Reconcile_def Get_GlanceAPI_def client_get_def s0_def)
    from reconcileInstance_justified [OF this refl refl]
    obtain cs where cs: "calls s' = calls s0 @ cs" "justified ?jk (Status instance) ?jd cs"
      unfolding j0 by blast
    have "justified ?jk (Status instance) ?jd ([(Get KGlanceAPI req, None)] @ cs)"
      using cs(2) by (intro justified_prepend_quiet) simp_all
    moreover have "new_calls s s' = [(Get KGlanceAPI req, None)] @ cs"
      using cs(1) by (simp add: new_calls_def s0_def)
    ultimately show ?thesis by simp
  qed
  from justifiedD [OF this assms(3)] show ?thesis .
qed

theorem status_hash_written_after_success_witness:
  "glanceapis storeJobDone exRequest = Some exInstance
   \<and> new_calls storeJobDone (snd (Reconcile exTemplates exRequest storeJobDone)) =
       [(Get KGlanceAPI exRequest, None),
        (Get KPersistentVolumeClaim exRequest, None),
        (Get KService exRequest, None),
        (Get KConfigMap exRequest, None),
        (Get KSchema exRequest, None),
        (Get KJob exJobKey, None)]
       @ (StatusUpdate exRequest \<lparr>DbSyncHash = ''#db_sync'', DeploymentHash = []\<rparr>, None)
       # [(Get KJob exJobKey, None),
          (Delete KJob exJobKey, None),
          (Get KDeployment exRequest, Some NotFound),
          (Create KDeployment exRequest, None)]
   \<and> (\<exists>j. jobs storeJobDone (key (glance_DbSyncJob exTemplates exInstance)) = Some j
          \<and> jobStatus j = JobCompleted)
   \<and> glanceapis storeDeploymentCreated exRequest
       = Some (exInstance\<lparr>Status := \<lparr>DbSyncHash = ''#db_sync'', DeploymentHash = []\<rparr>\<rparr>)
   \<and> new_calls storeDeploymentCreated
        (snd (Reconcile exTemplates exRequest storeDeploymentCreated)) =
       [(Get KGlanceAPI exRequest, None),
        (Get KPersistentVolumeClaim exRequest, None),
        (Get KService exRequest, None),
        (Get KConfigMap exRequest, None),
        (Get KSchema exRequest, None),
        (Get KJob exJobKey, Some NotFound),
        (Get KDeployment exRequest, None),
        (Update KDeployment exRequest, None)]
       @ (StatusUpdate exRequest
            \<lparr>DbSyncHash = ''#db_sync'', DeploymentHash = ''#config=#cm''\<rparr>, None)
       # []"
proof -
  have a1: "Reconcile exTemplates exRequest storeJobDone
      = (fst (Reconcile exTemplates exRequest storeJobDone),
         snd (Reconcile exTemplates exRequest storeJobDone))"
    by simp
  have a2: "glanceapis storeJobDone exRequest = Some exInstance"
    by (simp add: storeDeploymentCreated_def example_defs)
  have a3: "new_calls storeJobDone (snd (Reconcile exTemplates exRequest storeJobDone)) =
       [(Get KGlanceAPI exRequest, None),
        (Get KPersistentVolumeClaim exRequest, None),
        (Get KService exRequest, None),
        (Get KConfigMap exRequest, None),
        (Get KSchema exRequest, None),
        (Get KJob exJobKey, None)]
       @ (StatusUpdate exRequest \<lparr>DbSyncHash = ''#db_sync'', DeploymentHash = []\<rparr>, None)
       # [(Get KJob exJobKey, None),
          (Delete KJob exJobKey, None),
          (Get KDeployment exRequest, Some NotFound),
          (Create KDeployment exRequest, None)]"
    by (simp add: storeDeploymentCreated_def reconcile_defs client_defs example_defs)
  have b1: "Reconcile exTemplates exRequest storeDeploymentCreated
      = (fst (Reconcile exTemplates exRequest storeDeploymentCreated),
         snd (Reconcile exTemplates exRequest storeDeploymentCreated))"
    by simp
  have b2: "glanceapis storeDeploymentCreated exRequest
       = Some (exInstance\<lparr>Status := \<lparr>DbSyncHash = ''#db_sync'', DeploymentHash = []\<rparr>\<rparr>)"
    by (simp add: storeDeploymentCreated_def example_defs)
  have b3: "new_calls storeDeploymentCreated
        (snd (Reconcile exTemplates exRequest storeDeploymentCreated)) =
       [(Get KGlanceAPI exRequest, None),
        (Get KPersistentVolumeClaim exRequest, None),
        (Get KService exRequest, None),
        (Get KConfigMap exRequest, None),
        (Get KSchema exRequest, None),
        (Get KJob exJobKey, Some NotFound),
        (Get KDeployment exRequest, None),
        (Update KDeployment exRequest, None)]
       @ (StatusUpdate exRequest
            \<lparr>DbSyncHash = ''#db_sync'', DeploymentHash = ''#config=#cm''\<rparr>, None)
       # []"
    by (simp add: storeDeploymentCreated_def reconcile_defs client_defs example_defs)
  from status_hash_written_after_success [OF a1 a2 a3]
    status_hash_written_after_success [OF b1 b2 b3]
  show ?thesis
    using a2 a3 b2 b3 by (simp add: storeDeploymentCreated_def example_defs)
qed

subsection \<open>The scenario of a fresh Specification\<close>

text \<open>
  Claim C8, evaluated where it fails: the run from a fresh Specification, pass by pass,
  the cluster completing the schema object, finishing the job and making the replica
  ready in between. The first two passes are as claimed. The third pass creates the
  ConfigMap, the schema object and, before any completion flag exists, the DB sync job.
  The pass that finds the job succeeded records its fingerprint, deletes the job, creates
  the Deployment and requeues after 10 seconds, as claimed; but the branch that creates
  the Deployment (lines 197-204) does not record the Deployment's fingerprint, which the
  branch that updates it (lines 210-221) does. So once the replica is ready, the next
  pass does not return \<^verbatim>\<open>ctrl.Result{}, nil\<close>: it updates the Deployment, whose spec is
  the desired one already, records the fingerprint and requeues after 10 seconds. Only
  the pass after that returns \<^verbatim>\<open>ctrl.Result{}, nil\<close>.
\<close>

theorem fresh_scenario_update_before_done:
  "fst (Reconcile exTemplates exRequest freshStore)
     = (\<lparr>Requeue = False, RequeueAfter = 5000000000\<rparr>, None)
   \<and> new_calls freshStore afterPass1 =
       [(Get KGlanceAPI exRequest, None),
        (Get KPersistentVolumeClaim exRequest, Some NotFound),
        (Create KPersistentVolumeClaim exRequest, None)]
   \<and> fst (Reconcile exTemplates exRequest afterPass1)
        = (\<lparr>Requeue = False, RequeueAfter = 5000000000\<rparr>, None)
   \<and> new_calls afterPass1 afterPass2 =
       [(Get KGlanceAPI exRequest, None),
        (Get KPersistentVolumeClaim exRequest, None),
        (Get KService exRequest, Some NotFound),
        (Create KService exRequest, None)]
   \<and> fst (Reconcile exTemplates exRequest afterPass2)
        = (\<lparr>Requeue = False, RequeueAfter = 5000000000\<rparr>, None)
   \<and> new_calls afterPass2 afterPass3 =
       [(Get KGlanceAPI exRequest, None),
        (Get KPersistentVolumeClaim exRequest, None),
        (Get KService exRequest, None),
        (Get KConfigMap exRequest, Some NotFound),
        (Create KConfigMap exRequest, None),
        (Get KSchema exRequest, Some NotFound),
        (Create KSchema exRequest, None),
        (Get KJob exJobKey, Some NotFound),
        (Create KJob exJobKey, None)]
   \<and> map_option statusCompleted (schemas afterPass3 exRequest) = Some FieldMissing
   \<and> map_option statusCompleted (schemas gateReady exRequest) = Some (FieldBool True)
   \<and> map_option jobStatus (jobs gateReady exJobKey) = Some JobRunning
   \<and> fst (Reconcile exTemplates exRequest gateReady)
        = (\<lparr>Requeue = False, RequeueAfter = 5000000000\<rparr>, None)
   \<and> new_calls gateReady afterPass4 =
       [(Get KGlanceAPI exRequest, None),
        (Get KPersistentVolumeClaim exRequest, None),
        (Get KService exRequest, None),
        (Get KConfigMap exRequest, None),
        (Get KSchema exRequest, None),
        (Get KJob exJobKey, None)]
   \<and> map_option jobStatus (jobs jobSucceeded exJobKey) = Some JobCompleted
   \<and> fst (Reconcile exTemplates exRequest jobSucceeded)
        = (\<lparr>Requeue = False, RequeueAfter = 10000000000\<rparr>, None)
   \<and> new_calls jobSucceeded afterPass5 =
       [(Get KGlanceAPI exRequest, None),
        (Get KPersistentVolumeClaim exRequest, None),
        (Get KService exRequest, None),
        (Get KConfigMap exRequest, None),
        (Get KSchema exRequest, None),
        (Get KJob exJobKey, None),
        (StatusUpdate exRequest \<lparr>DbSyncHash = ''#db_sync'', DeploymentHash = []\<rparr>, None),
        (Get KJob exJobKey, None),
        (Delete KJob exJobKey, None),
        (Get KDeployment exRequest, Some NotFound),
        (Create KDeployment exRequest, None)]
   \<and> deployments replicasReady exRequest
        = Some \<lparr>Name = ''glance'', Namespace = ''openstack'', deploymentSpec = ''config=#cm'',
                deploymentStatus = \<lparr>ReadyReplicas = 1\<rparr>\<rparr>
   \<and> deploymentSpec (glance_Deployment exTemplates exInstance ''#cm'') = ''config=#cm''
   \<and> map_option Spec (glanceapis replicasReady exRequest) = Some \<lparr>Replicas = 1\<rparr>
   \<and> fst (Reconcile exTemplates exRequest replicasReady)
        = (\<lparr>Requeue = False, RequeueAfter = 10000000000\<rparr>, None)
   \<and> fst (Reconcile exTemplates exRequest replicasReady)
        \<noteq> (\<lparr>Requeue = False, RequeueAfter = 0\<rparr>, None)
   \<and> new_calls replicasReady afterPass6 =
       [(Get KGlanceAPI exRequest, None),
        (Get KPersistentVolumeClaim exRequest, None),
        (Get KService exRequest, None),
        (Get KConfigMap exRequest, None),
        (Get KSchema exRequest, None),
        (Get KJob exJobKey, Some NotFound),
        (Get KDeployment exRequest, None),
        (Update KDeployment exRequest, None),
        (StatusUpdate exRequest
           \<lparr>DbSyncHash = ''#db_sync'', DeploymentHash = ''#config=#cm''\<rparr>, None)]
   \<and> fst (Reconcile exTemplates exRequest afterPass6)
        = (\<lparr>Requeue = False, RequeueAfter = 0\<rparr>, None)"
proof -
  note ev = reconcile_defs client_defs example_defs
  have p1: "fst (Reconcile exTemplates exRequest freshStore)
     = (\<lparr>Requeue = False, RequeueAfter = 5000000000\<rparr>, None)"
    "new_calls freshStore afterPass1 =
       [(Get KGlanceAPI exRequest, None),
        (Get KPersistentVolumeClaim exRequest, Some NotFound),
        (Create KPersistentVolumeClaim exRequest, None)]"
    by (simp_all add: afterPass1_def ev)
  have p2: "fst (Reconcile exTemplates exRequest afterPass1)
        = (\<lparr>Requeue = False, RequeueAfter = 5000000000\<rparr>, None)"
    "new_calls afterPass1 afterPass2 =
       [(Get KGlanceAPI exRequest, None),
        (Get KPersistentVolumeClaim exRequest, None),
        (Get KService exRequest, Some NotFound),
        (Create KService exRequest, None)]"
    by (simp_all add: afterPass2_def afterPass1_fields ev)
  have p3: "fst (Reconcile exTemplates exRequest afterPass2)
        = (\<lparr>Requeue = False, RequeueAfter = 5000000000\<rparr>, None)"
    "new_calls afterPass2 afterPass3 =
       [(Get KGlanceAPI exRequest, None),
        (Get KPersistentVolumeClaim exRequest, None),
        (Get KService exRequest, None),
        (Get KConfigMap exRequest, Some NotFound),
        (Create KConfigMap exRequest, None),
        (Get KSchema exRequest, Some NotFound),
        (Create KSchema exRequest, None),
        (Get KJob exJobKey, Some NotFound),
        (Create KJob exJobKey, None)]"
    "map_option statusCompleted (schemas afterPass3 exRequest) = Some FieldMissing"
    by (simp_all add: afterPass3_def afterPass2_fields ev)
  have p4: "map_option statusCompleted (schemas gateReady exRequest) = Some (FieldBool True)"
    "map_option jobStatus (jobs gateReady exJobKey) = Some JobRunning"
    "fst (Reconcile exTemplates exRequest gateReady)
        = (\<lparr>Requeue = False, RequeueAfter = 5000000000\<rparr>, None)"
    "new_calls gateReady afterPass4 =
       [(Get KGlanceAPI exRequest, None),
        (Get KPersistentVolumeClaim exRequest, None),
        (Get KService exRequest, None),
        (Get KConfigMap exRequest, None),
        (Get KSchema exRequest, None),
        (Get KJob exJobKey, None)]"
    by (simp_all add: afterPass4_def gateReady_fields ev)
  have p5: "map_option jobStatus (jobs jobSucceeded exJobKey) = Some JobCompleted"
    "fst (Reconcile exTemplates exRequest jobSucceeded)
        = (\<lparr>Requeue = False, RequeueAfter = 10000000000\<rparr>, None)"
    "new_calls jobSucceeded afterPass5 =
       [(Get KGlanceAPI exRequest, None),
        (Get KPersistentVolumeClaim exRequest, None),
        (Get KService exRequest, None),
        (Get KConfigMap exRequest, None),
        (Get KSchema exRequest, None),
        (Get KJob exJobKey, None),
        (StatusUpdate exRequest \<lparr>DbSyncHash = ''#db_sync'', DeploymentHash = []\<rparr>, None),
        (Get KJob exJobKey, None),
        (Delete KJob exJobKey, None),
        (Get KDeployment exRequest, Some NotFound),
        (Create KDeployment exRequest, None)]"
    by (simp_all add: afterPass5_def jobSucceeded_fields ev)
  have p6: "deployments replicasReady exRequest
        = Some \<lparr>Name = ''glance'', Namespace = ''openstack'', deploymentSpec = ''config=#cm'',
                deploymentStatus = \<lparr>ReadyReplicas = 1\<rparr>\<rparr>"
    "deploymentSpec (glance_Deployment exTemplates exInstance ''#cm'') = ''config=#cm''"
    "map_option Spec (glanceapis replicasReady exRequest) = Some \<lparr>Replicas = 1\<rparr>"
    "fst (Reconcile exTemplates exRequest replicasReady)
        = (\<lparr>Requeue = False, RequeueAfter = 10000000000\<rparr>, None)"
    "new_calls replicasReady afterPass6 =
       [(Get KGlanceAPI exRequest, None),
        (Get KPersistentVolumeClaim exRequest, None),
        (Get KService exRequest, None),
        (Get KConfigMap exRequest, None),
        (Get KSchema exRequest, None),
        (Get KJob exJobKey, Some NotFound),
        (Get KDeployment exRequest, None),
        (Update KDeployment exRequest, None),
        (StatusUpdate exRequest
           \<lparr>DbSyncHash = ''#db_sync'', DeploymentHash = ''#config=#cm''\<rparr>, None)]"
    by (simp_all add: afterPass6_def replicasReady_fields afterPass5_fields ev)
  have p7: "fst (Reconcile exTemplates exRequest afterPass6)
        = (\<lparr>Requeue = False, RequeueAfter = 0\<rparr>, None)"
    by (simp add: afterPass6_fields replicasReady_fields afterPass5_fields ev)
  from p6(4) have ne: "fst (Reconcile exTemplates exRequest replicasReady)
        \<noteq> (\<lparr>Requeue = False, RequeueAfter = 0\<rparr>, None)"
    by simp
  from p1 p2 p3 p4 p5 p6 p7 ne show ?thesis
    by blast
qed

subsection \<open>The instance is gone\<close>

text \<open>
  Claim C9. If fetching the Specification returns NotFound, \<open>Reconcile\<close> returns
  \<^verbatim>\<open>ctrl.Result{}, nil\<close>: no error, no requeue. The store it leaves is the one it
  was given with that single Get logged; nothing else was called and no object changed.
\<close>

theorem instance_not_found_returns:
  assumes "fst (Get_GlanceAPI req s) = Inl NotFound"
  shows "Reconcile env req s =
           ((emptyResult, None), record_call (Get KGlanceAPI req) (Some NotFound) s)
         \<and> new_calls s (snd (Reconcile env req s)) = [(Get KGlanceAPI req, Some NotFound)]"
  using assms
  by (auto simp: Reconcile_def Get_GlanceAPI_def client_get_def IsNotFound_def new_calls_def
      record_call_def split: option.splits)

theorem instance_not_found_returns_witness:
  "fst (Get_GlanceAPI exRequest (freshStore\<lparr>glanceapis := Map.empty\<rparr>)) = Inl NotFound
   \<and> Reconcile exTemplates exRequest (freshStore\<lparr>glanceapis := Map.empty\<rparr>) =
       ((emptyResult, None),
        record_call (Get KGlanceAPI exRequest) (Some NotFound)
          (freshStore\<lparr>glanceapis := Map.empty\<rparr>))
   \<and> new_calls (freshStore\<lparr>glanceapis := Map.empty\<rparr>)
        (snd (Reconcile exTemplates exRequest (freshStore\<lparr>glanceapis := Map.empty\<rparr>)))
       = [(Get KGlanceAPI exRequest, Some NotFound)]"
proof -
  have h: "fst (Get_GlanceAPI exRequest (freshStore\<lparr>glanceapis := Map.empty\<rparr>)) = Inl NotFound"
    by (simp add: client_defs example_defs)
  show ?thesis
    using h instance_not_found_returns [OF h, of exTemplates] by blast
qed

subsection \<open>Writing a hash that is already stored\<close>

text \<open>
  Claim C10. Given the hash already in the Status field, \<open>setDbSyncHash\<close> and
  \<open>setDeploymentHash\<close> return no error and hand back the instance and the store as they
  were: no call, no change of Status. Whenever either has called the store, the hash
  differed from the stored one.
\<close>

theorem set_hash_same_is_noop:
  "(hashStr = DbSyncHash (Status api) \<longrightarrow> setDbSyncHash api hashStr s = ((None, api), s))
   \<and> (hashStr = DeploymentHash (Status api) \<longrightarrow>
        setDeploymentHash api hashStr s = ((None, api), s))
   \<and> (calls (snd (setDbSyncHash api hashStr s)) \<noteq> calls s \<longrightarrow>
        hashStr \<noteq> DbSyncHash (Status api))
   \<and> (calls (snd (setDeploymentHash api hashStr s)) \<noteq> calls s \<longrightarrow>
        hashStr \<noteq> DeploymentHash (Status api))"
  by (auto simp: setDbSyncHash_def setDeploymentHash_def)

theorem set_hash_same_is_noop_witness:
  "setDbSyncHash convergedInstance ''#db_sync'' convergedStore
     = ((None, convergedInstance), convergedStore)
   \<and> setDeploymentHash convergedInstance ''#config=#cm'' convergedStore
     = ((None, convergedInstance), convergedStore)
   \<and> calls (snd (setDbSyncHash exInstance ''#db_sync'' freshStore)) \<noteq> calls freshStore
   \<and> calls (snd (setDeploymentHash exInstance ''#config=#cm'' freshStore)) \<noteq> calls freshStore
   \<and> ''#db_sync'' \<noteq> DbSyncHash (Status exInstance)
   \<and> ''#config=#cm'' \<noteq> DeploymentHash (Status exInstance)"
proof -
  have a: "''#db_sync'' = DbSyncHash (Status convergedInstance)"
    and b: "''#config=#cm'' = DeploymentHash (Status convergedInstance)"
    by (simp_all add: example_defs)
  have c: "calls (snd (setDbSyncHash exInstance ''#db_sync'' freshStore)) \<noteq> calls freshStore"
    and d: "calls (snd (setDeploymentHash exInstance ''#config=#cm'' freshStore))
              \<noteq> calls freshStore"
    by (simp_all add: reconcile_defs client_defs example_defs)
  show ?thesis
    using a b c d
      set_hash_same_is_noop [of "''#db_sync''" convergedInstance convergedStore]
      set_hash_same_is_noop [of "''#config=#cm''" convergedInstance convergedStore]
      set_hash_same_is_noop [of "''#db_sync''" exInstance freshStore]
      set_hash_same_is_noop [of "''#config=#cm''" exInstance freshStore]
    by simp
qed

end
